theory Spec2Isabelle
  imports Complex_Main
begin

section \<open>Python values and exceptions\<close>

text \<open>
  The exceptions of the Python code are values: a function that can raise returns
  \<open>pyerror + 'a\<close>, with \<open>Inl\<close> for the exception. Only instances of \<open>Exception\<close> are
  modelled. \<open>ServiceError\<close> stands for whatever an external service (the vector store,
  the embedding service) raises.
\<close>

datatype pyerror = IndexError | KeyError | AttributeError | TypeError | ValueError | ServiceError

text \<open>
  A metadata value of the vector store, and the value of a metadata lookup: a string, a
  number, a boolean or \<open>None\<close>.
\<close>

datatype mval = MNone | MStr string | MInt int | MFloat real | MBool bool

text \<open>A metadata record is a dictionary with string keys; \<open>map_of\<close> is its lookup.\<close>

type_synonym metadata = "(string \<times> mval) list"

text \<open>\<open>meta.get(k)\<close>: the value, or \<open>None\<close> when the key is absent.\<close>

definition meta_get :: "metadata \<Rightarrow> string \<Rightarrow> mval" where
  "meta_get meta k = (case map_of meta k of None \<Rightarrow> MNone | Some v \<Rightarrow> v)"

text \<open>\<open>xs[i]\<close> for a list and an index that is not negative: out of range raises.\<close>

definition py_index :: "'a list \<Rightarrow> nat \<Rightarrow> pyerror + 'a" where
  "py_index xs i = (if i < length xs then Inr (xs ! i) else Inl IndexError)"

text \<open>The truth value of an optional string: \<open>None\<close> and the empty string are false.\<close>

fun truthy :: "string option \<Rightarrow> bool" where
  "truthy None = False"
| "truthy (Some s) = (s \<noteq> [])"

section \<open>Content chunker (add\_projects\_to\_vector\_db, lines 256--265)\<close>

text \<open>
  \<open>range(start, stop, step)\<close> for a positive step, as the list of its values. The loop
  below runs over it.
\<close>

function py_range :: "nat \<Rightarrow> nat \<Rightarrow> nat \<Rightarrow> nat list" where
  "py_range i stop step =
     (if i < stop \<and> 0 < step then i # py_range (i + step) stop step else [])"
  by pat_completeness auto
termination
  by (relation "measure (\<lambda>(i, stop, step). stop - i)") auto

declare py_range.simps [simp del]

definition chunk_size :: nat where
  "chunk_size = 1000"

definition overlap :: nat where
  "overlap = 100"

text \<open>\<open>text[i:j]\<close> for indices that are not negative.\<close>

definition py_slice :: "'a list \<Rightarrow> nat \<Rightarrow> nat \<Rightarrow> 'a list" where
  "py_slice xs i j = take (j - i) (drop i xs)"

text \<open>
  The body of the loop \<open>for i in range(0, len(content_text), chunk_size - overlap)\<close>:
  the window \<open>content_text[i:i + chunk_size]\<close> is appended when it is not empty.
\<close>

fun chunk_loop :: "'a list \<Rightarrow> nat list \<Rightarrow> 'a list list \<Rightarrow> 'a list list" where
  "chunk_loop content_text [] chunks = chunks"
| "chunk_loop content_text (i # is) chunks =
     (let chunk = py_slice content_text i (i + chunk_size)
      in chunk_loop content_text is (if chunk \<noteq> [] then chunks @ [chunk] else chunks))"

definition chunk_content :: "'a list \<Rightarrow> 'a list list" where
  "chunk_content content_text =
     chunk_loop content_text (py_range 0 (length content_text) (chunk_size - overlap)) []"

section \<open>The vector store as the retriever sees it\<close>

text \<open>
  The collection is an external service. A \<open>where\<close> filter is an equality on a metadata
  key or a conjunction of filters.
\<close>

datatype where_clause = Eq string mval | And "where_clause list"

text \<open>
  What \<open>collection.query\<close> returns: a dictionary with three batched lists, one inner
  list for each query text. The code sends one query text and reads index 0. The three
  keys are always there, so the default of \<open>results.get("documents", [[]])\<close> is never
  used, and the dictionary is true in a condition.
\<close>

record query_result =
  qr_documents :: "string list list"
  qr_metadatas :: "metadata list list"
  qr_distances :: "real list list"

text \<open>
  The two calls the retriever makes. Each of them may raise. \<open>coll_query c q n w\<close> is
  \<open>collection.query(query_texts=[q], n_results=n, where=w)\<close>.
\<close>

record collection =
  coll_count :: "pyerror + nat"
  coll_query :: "string \<Rightarrow> int \<Rightarrow> where_clause option \<Rightarrow> pyerror + query_result"

text \<open>
  The dictionary that \<open>query_vector_db\<close> returns and that \<open>generate_ai_response\<close> reads
  as \<open>search_results\<close>, with a field for each of its keys \<open>documents\<close>,
  \<open>metadatas\<close> and \<open>distances\<close>. Python does not type the elements of the three lists:
  \<open>query_vector_db\<close> stores one value for each result (\<open>Single\<close>), the vector store's
  own response has one list for each query text (\<open>Batch\<close>).
\<close>

datatype 'a entry = Single 'a | Batch "'a list"

record search_results =
  sr_documents :: "string entry list"
  sr_metadatas :: "metadata entry list"
  sr_distances :: "real entry list"

text \<open>
  \<open>{"documents": docs, "metadatas": metas, "distances": dists}\<close> for three flat
  lists, as at lines 375, 452, 459 and 470.
\<close>

definition flat_results :: "string list \<Rightarrow> metadata list \<Rightarrow> real list \<Rightarrow> search_results" where
  "flat_results docs metas dists =
     \<lparr>sr_documents = map Single docs, sr_metadatas = map Single metas,
      sr_distances = map Single dists\<rparr>"

definition empty_results :: search_results where
  "empty_results = flat_results [] [] []"

section \<open>Retriever (query\_vector\_db, lines 355--474)\<close>

text \<open>\<open>try: body except Exception as e: handler\<close>.\<close>

definition try_except :: "pyerror + 'a \<Rightarrow> (pyerror \<Rightarrow> pyerror + 'a) \<Rightarrow> pyerror + 'a" where
  "try_except body handler = (case body of Inl e \<Rightarrow> handler e | Inr v \<Rightarrow> Inr v)"

text \<open>\<open>xss[0].append(x)\<close>: raises when \<open>xss\<close> is empty, else extends the first list in place.\<close>

definition append_first :: "'a list list \<Rightarrow> 'a \<Rightarrow> pyerror + 'a list list" where
  "append_first xss x = (case xss of [] \<Rightarrow> Inl IndexError | xs # rest \<Rightarrow> Inr ((xs @ [x]) # rest))"

text \<open>
  Lines 413--416: the loop that appends the conversation results to \<open>results\<close>. It
  mutates \<open>results\<close> statement by statement, so an exception in the middle of a round
  leaves what was appended before it. The function returns the state of \<open>results\<close> and
  the exception, if any.
\<close>

fun merge_conversation ::
  "query_result \<Rightarrow> nat \<Rightarrow> string list \<Rightarrow> query_result \<Rightarrow> query_result \<times> pyerror option" where
  "merge_conversation conversation_results i [] results = (results, None)"
| "merge_conversation conversation_results i (doc # docs) results =
     (case append_first (qr_documents results) doc of
        Inl e \<Rightarrow> (results, Some e)
      | Inr ds \<Rightarrow>
          (let results1 = results\<lparr>qr_documents := ds\<rparr> in
           case py_index (qr_metadatas conversation_results) 0 of
             Inl e \<Rightarrow> (results1, Some e)
           | Inr cmetas \<Rightarrow>
           (case py_index cmetas i of
             Inl e \<Rightarrow> (results1, Some e)
           | Inr m \<Rightarrow>
           (case append_first (qr_metadatas results1) m of
             Inl e \<Rightarrow> (results1, Some e)
           | Inr ms \<Rightarrow>
               (let results2 = results1\<lparr>qr_metadatas := ms\<rparr> in
                case py_index (qr_distances conversation_results) 0 of
                  Inl e \<Rightarrow> (results2, Some e)
                | Inr cdists \<Rightarrow>
                (case py_index cdists i of
                  Inl e \<Rightarrow> (results2, Some e)
                | Inr x \<Rightarrow>
                (case append_first (qr_distances results2) x of
                  Inl e \<Rightarrow> (results2, Some e)
                | Inr xs \<Rightarrow>
                    merge_conversation conversation_results (Suc i) docs
                      (results2\<lparr>qr_distances := xs\<rparr>))))))))"

definition conversation_filter :: "string \<Rightarrow> where_clause" where
  "conversation_filter visitor_id =
     And [Eq ''category'' (MStr ''conversation''), Eq ''visitor_id'' (MStr visitor_id)]"

text \<open>
  Lines 391--419: the second query, for the visitor's conversation history. Whatever
  it raises is caught and \<open>results\<close> is used as it is by then.
\<close>

definition add_conversation_results ::
  "collection \<Rightarrow> string \<Rightarrow> string option \<Rightarrow> bool \<Rightarrow> query_result \<Rightarrow> query_result" where
  "add_conversation_results collection query visitor_id include_conversation results =
     (case visitor_id of
        None \<Rightarrow> results
      | Some v \<Rightarrow>
          if truthy visitor_id \<and> include_conversation then
            (case coll_query collection query 3 (Some (conversation_filter v)) of
               Inl e \<Rightarrow> results
             | Inr conversation_results \<Rightarrow>
                 (case py_index (qr_documents conversation_results) 0 of
                    Inl e \<Rightarrow> results
                  | Inr cdocs \<Rightarrow>
                      if length cdocs > 0
                      then fst (merge_conversation conversation_results 0 cdocs results)
                      else results))
          else results)"

text \<open>
  Lines 433--449: the owner filter, a loop over \<open>enumerate(metadatas)\<close> that appends to
  the three filtered lists. \<open>documents[i]\<close> and \<open>distances[i]\<close> raise when the lists
  are shorter than \<open>metadatas\<close>.
\<close>

fun filter_by_user ::
  "string \<Rightarrow> string list \<Rightarrow> real list \<Rightarrow> nat \<Rightarrow> metadata list \<Rightarrow>
   string list \<times> metadata list \<times> real list \<Rightarrow> pyerror + string list \<times> metadata list \<times> real list" where
  "filter_by_user user_id documents distances i [] filtered = Inr filtered"
| "filter_by_user user_id documents distances i (meta # metas) (filtered_docs, filtered_meta, filtered_dist) =
     (let category = meta_get meta ''category'';
          doc_user_id = meta_get meta ''user_id''
      in if category = MStr ''conversation'' then
           (case py_index documents i of
              Inl e \<Rightarrow> Inl e
            | Inr d \<Rightarrow>
                (case py_index distances i of
                   Inl e \<Rightarrow> Inl e
                 | Inr x \<Rightarrow>
                     filter_by_user user_id documents distances (Suc i) metas
                       (filtered_docs @ [d], filtered_meta @ [meta], filtered_dist @ [x])))
         else if doc_user_id = MStr user_id then
           (case py_index documents i of
              Inl e \<Rightarrow> Inl e
            | Inr d \<Rightarrow>
                (case py_index distances i of
                   Inl e \<Rightarrow> Inl e
                 | Inr x \<Rightarrow>
                     filter_by_user user_id documents distances (Suc i) metas
                       (filtered_docs @ [d], filtered_meta @ [meta], filtered_dist @ [x])))
         else filter_by_user user_id documents distances (Suc i) metas
                (filtered_docs, filtered_meta, filtered_dist))"

text \<open>Lines 421--466: the three lists are read at index 0, filtered by owner if one is given.\<close>

definition structure_results :: "string option \<Rightarrow> query_result \<Rightarrow> pyerror + search_results" where
  "structure_results user_id results =
     (case py_index (qr_documents results) 0 of
        Inl e \<Rightarrow> Inl e
      | Inr documents \<Rightarrow>
     (case py_index (qr_metadatas results) 0 of
        Inl e \<Rightarrow> Inl e
      | Inr metadatas \<Rightarrow>
     (case py_index (qr_distances results) 0 of
        Inl e \<Rightarrow> Inl e
      | Inr distances \<Rightarrow>
          (case user_id of
             None \<Rightarrow> Inr (flat_results documents metadatas distances)
           | Some u \<Rightarrow>
               if truthy user_id then
                 (case filter_by_user u documents distances 0 metadatas ([], [], []) of
                    Inl e \<Rightarrow> Inl e
                  | Inr (filtered_docs, filtered_meta, filtered_dist) \<Rightarrow>
                      Inr (flat_results filtered_docs filtered_meta filtered_dist))
               else Inr (flat_results documents metadatas distances)))))"

text \<open>
  The body of the \<open>try\<close> block. \<open>chroma_client\<close> is the outcome of
  \<open>chroma_client.get_or_create_collection(...)\<close>.
\<close>

definition query_vector_db_body ::
  "pyerror + collection \<Rightarrow> string \<Rightarrow> int \<Rightarrow> string option \<Rightarrow> string option \<Rightarrow> bool \<Rightarrow>
   pyerror + search_results" where
  "query_vector_db_body chroma_client query n_results user_id visitor_id include_conversation =
     (case chroma_client of
        Inl e \<Rightarrow> Inl e
      | Inr collection \<Rightarrow>
          (case coll_count collection of
             Inl e \<Rightarrow> Inl e
           | Inr collection_count \<Rightarrow>
               if collection_count = 0 then Inr empty_results
               else
                 (case coll_query collection query n_results None of
                    Inl e \<Rightarrow> Inl e
                  | Inr results \<Rightarrow>
                      structure_results user_id
                        (add_conversation_results collection query visitor_id
                           include_conversation results))))"

definition query_vector_db ::
  "pyerror + collection \<Rightarrow> string \<Rightarrow> int \<Rightarrow> string option \<Rightarrow> string option \<Rightarrow> bool \<Rightarrow>
   pyerror + search_results" where
  "query_vector_db chroma_client query n_results user_id visitor_id include_conversation =
     try_except
       (query_vector_db_body chroma_client query n_results user_id visitor_id include_conversation)
       (\<lambda>e. Inr empty_results)"

section \<open>Python strings\<close>

text \<open>
  A string is a list of characters. The operations below are those of \<open>str\<close> on ASCII
  text: \<open>upper\<close> changes the letters \<open>a\<close> to \<open>z\<close> only.
\<close>

text \<open>\<open>c.isspace()\<close> for a character below 256.\<close>

definition py_isspace :: "char \<Rightarrow> bool" where
  "py_isspace c \<longleftrightarrow> (of_char c :: nat) \<in> {9, 10, 11, 12, 13, 28, 29, 30, 31, 32, 133, 160}"

text \<open>\<open>s.strip()\<close>.\<close>

definition py_strip :: "string \<Rightarrow> string" where
  "py_strip s = rev (dropWhile py_isspace (rev (dropWhile py_isspace s)))"

text \<open>\<open>s.upper()\<close>.\<close>

definition py_upper :: "string \<Rightarrow> string" where
  "py_upper s =
     map (\<lambda>c. case map_of (zip ''abcdefghijklmnopqrstuvwxyz'' ''ABCDEFGHIJKLMNOPQRSTUVWXYZ'') c of
                None \<Rightarrow> c
              | Some u \<Rightarrow> u) s"

text \<open>\<open>sub in s\<close>.\<close>

fun py_contains :: "string \<Rightarrow> string \<Rightarrow> bool" where
  "py_contains sub [] = (sub = [])"
| "py_contains sub (c # cs) = (take (length sub) (c # cs) = sub \<or> py_contains sub cs)"

text \<open>
  \<open>s.split(sep)\<close> for a separator that is not empty: the pieces between the occurrences
  of \<open>sep\<close>, found from the left without overlap. \<open>cur\<close> is the piece being read.
\<close>

function py_split_from :: "string \<Rightarrow> string \<Rightarrow> string \<Rightarrow> string list" where
  "py_split_from sep cur [] = [cur]"
| "py_split_from sep cur (c # cs) =
     (if sep \<noteq> [] \<and> take (length sep) (c # cs) = sep
      then cur # py_split_from sep [] (drop (length sep) (c # cs))
      else py_split_from sep (cur @ [c]) cs)"
  by pat_completeness auto
termination
  by (relation "measure (\<lambda>(sep, cur, s). length s)") auto

definition py_split :: "string \<Rightarrow> string \<Rightarrow> string list" where
  "py_split sep s = py_split_from sep [] s"

text \<open>
  A dictionary whose values are strings or \<open>None\<close>: a profile, a chat message, a
  project. \<open>dict_get d k\<close> is \<open>d.get(k)\<close>, \<open>dict_get_default d k v\<close> is \<open>d.get(k, v)\<close>,
  which is \<open>None\<close> when the key is there with the value \<open>None\<close>.
\<close>

type_synonym pydict = "(string \<times> string option) list"

definition dict_get :: "pydict \<Rightarrow> string \<Rightarrow> string option" where
  "dict_get d k = (case map_of d k of None \<Rightarrow> None | Some v \<Rightarrow> v)"

definition dict_get_default :: "pydict \<Rightarrow> string \<Rightarrow> string \<Rightarrow> string option" where
  "dict_get_default d k v = (case map_of d k of None \<Rightarrow> Some v | Some x \<Rightarrow> x)"

text \<open>How an f-string prints a string or \<open>None\<close>.\<close>

fun py_str :: "string option \<Rightarrow> string" where
  "py_str None = ''None''"
| "py_str (Some s) = s"

section \<open>Context assembly and response generation (generate\_ai\_response, lines 476--612)\<close>

subsection \<open>Relevant-context block, lines 482--492\<close>

text \<open>
  \<open>len(x)\<close> and the iteration over \<open>x\<close> for \<open>x = search_results["documents"][0]\<close>: a
  string has the length of its text and is iterated character by character, a list is
  iterated element by element.
\<close>

fun document_len :: "string entry \<Rightarrow> nat" where
  "document_len (Single s) = length s"
| "document_len (Batch ds) = length ds"

fun document_items :: "string entry \<Rightarrow> string list" where
  "document_items (Single s) = map (\<lambda>c. [c]) s"
| "document_items (Batch ds) = ds"

text \<open>
  \<open>x[i]\<close> for \<open>x = search_results["metadatas"][0]\<close> and a number \<open>i\<close>: a metadata
  dictionary has string keys only, so the number is a missing key; a list is indexed.
\<close>

fun metadata_at :: "metadata entry \<Rightarrow> nat \<Rightarrow> pyerror + metadata" where
  "metadata_at (Single meta) i = Inl KeyError"
| "metadata_at (Batch metas) i = py_index metas i"

text \<open>\<open>meta[k]\<close>.\<close>

definition meta_item :: "metadata \<Rightarrow> string \<Rightarrow> pyerror + mval" where
  "meta_item meta k = (case map_of meta k of None \<Rightarrow> Inl KeyError | Some v \<Rightarrow> Inr v)"

text \<open>\<open>v.upper()\<close>: only a string has the method.\<close>

fun mval_upper :: "mval \<Rightarrow> pyerror + string" where
  "mval_upper (MStr s) = Inr (py_upper s)"
| "mval_upper v = Inl AttributeError"

definition no_results_context :: string where
  "no_results_context = ''No specific information available. Please provide a general response.''"

text \<open>The loop of lines 485--487, with \<open>context\<close> as its accumulator.\<close>

fun context_loop :: "search_results \<Rightarrow> nat \<Rightarrow> string list \<Rightarrow> string \<Rightarrow> pyerror + string" where
  "context_loop search_results i [] context = Inr context"
| "context_loop search_results i (doc # docs) context =
     (case py_index (sr_metadatas search_results) 0 of
        Inl e \<Rightarrow> Inl e
      | Inr metas0 \<Rightarrow>
     (case metadata_at metas0 i of
        Inl e \<Rightarrow> Inl e
      | Inr meta \<Rightarrow>
     (case meta_item meta ''subcategory'' of
        Inl e \<Rightarrow> Inl e
      | Inr subcategory \<Rightarrow>
     (case mval_upper subcategory of
        Inl e \<Rightarrow> Inl e
      | Inr upper \<Rightarrow>
          context_loop search_results (Suc i) docs
            (context @ upper @ '': '' @ doc @ ''\<newline>\<newline>'')))))"

definition relevant_context :: "search_results \<Rightarrow> pyerror + string" where
  "relevant_context search_results =
     (case sr_documents search_results of
        [] \<Rightarrow> Inr no_results_context
      | first # rest \<Rightarrow>
          if document_len first > 0
          then context_loop search_results 0 (document_items first) []
          else Inr no_results_context)"

subsection \<open>Persona name, lines 494--523\<close>

text \<open>
  Lines 505--516: the name taken from the bio, or the empty string. The \<open>try\<close> block
  leaves \<open>user_name\<close> empty when an index is out of range.
\<close>

definition name_from_bio :: "string \<Rightarrow> string" where
  "name_from_bio bio =
     (if py_contains ''I am '' bio then
        (case py_index (py_split ''I am '' bio) 1 of
           Inl e \<Rightarrow> []
         | Inr rest \<Rightarrow>
             (case py_index (py_split '' '' rest) 0 of
                Inl e \<Rightarrow> []
              | Inr name_part \<Rightarrow>
                  if name_part \<noteq> [] \<and> length name_part > 2 then name_part else []))
      else [])"

text \<open>The string behind an optional string that has been tested to be true.\<close>

definition opt_text :: "string option \<Rightarrow> string" where
  "opt_text v = (case v of None \<Rightarrow> [] | Some s \<Rightarrow> s)"

definition resolve_user_name :: "pydict option \<Rightarrow> string" where
  "resolve_user_name profile_data =
     (case profile_data of
        None \<Rightarrow> ''the person''
      | Some profile \<Rightarrow>
          if profile = [] then ''the person''
          else
            (let name = dict_get profile ''name'';
                 bio = dict_get profile ''bio'';
                 user_name =
                   (if truthy name \<and> py_strip (opt_text name) \<noteq> [] then py_strip (opt_text name)
                    else if truthy bio then name_from_bio (opt_text bio)
                    else [])
             in if user_name = [] then ''the person'' else user_name))"

subsection \<open>Profile block, lines 525--545\<close>

definition profile_context :: "pydict option \<Rightarrow> string" where
  "profile_context profile_data =
     (case profile_data of
        None \<Rightarrow> []
      | Some profile \<Rightarrow>
          if profile = [] then []
          else
            ''\<newline>NAME: '' @ py_str (dict_get_default profile ''name'' ''Not provided'') @
            ''\<newline>LOCATION: '' @ py_str (dict_get_default profile ''location'' ''Not provided'') @
            ''\<newline>BIO: '' @ py_str (dict_get_default profile ''bio'' ''Not provided'') @
            ''\<newline>SKILLS: '' @ py_str (dict_get_default profile ''skills'' ''Not provided'') @
            ''\<newline>EXPERIENCE: '' @ py_str (dict_get_default profile ''experience'' ''Not provided'') @
            ''\<newline>PROJECTS: '' @ py_str (dict_get_default profile ''projects'' ''Not provided'') @
            ''\<newline>INTERESTS: '' @ py_str (dict_get_default profile ''interests'' ''Not provided'') @
            ''\<newline>        '')"

subsection \<open>History block, lines 547--559\<close>

fun history_loop :: "pydict list \<Rightarrow> string \<Rightarrow> string" where
  "history_loop [] conversation_context = conversation_context"
| "history_loop (msg # msgs) conversation_context =
     history_loop msgs
       (if dict_get msg ''sender'' = Some ''user''
        then conversation_context @ ''Visitor: '' @ py_str (dict_get_default msg ''message'' []) @ ''\<newline>''
        else conversation_context @ ''You: '' @ py_str (dict_get_default msg ''response'' []) @ ''\<newline>'')"

definition conversation_context :: "pydict list option \<Rightarrow> string" where
  "conversation_context chat_history =
     (case chat_history of
        None \<Rightarrow> []
      | Some msgs \<Rightarrow>
          if msgs \<noteq> [] \<and> length msgs > 0
          then history_loop msgs ''PREVIOUS CONVERSATION:\<newline>'' @ ''\<newline>''
          else [])"

subsection \<open>System prompt, lines 562--586\<close>

text \<open>The fixed text of the template, between its four placeholders.\<close>

definition prompt_intro :: string where
  "prompt_intro =
     ''\<newline>'' @
     ''You are NOT an AI assistant. You ARE ''"

definition prompt_rules :: string where
  "prompt_rules =
     '' whose profile information is provided below.\<newline>'' @
     ''\<newline>'' @
     ''When responding, you MUST:\<newline>'' @
     ''1. Speak in the FIRST PERSON (I, me, my) as if you ARE this person.\<newline>'' @
     ''2. ONLY use the exact information provided in the context sections below.\<newline>'' @
     ''3. DO NOT invent, add, or make up ANY details that aren't explicitly mentioned in the provided profile information.\<newline>'' @
     ''4. If you don't have specific information to answer a question, say '' @
     [CHR 0x22] @
     ''I prefer not to discuss that topic'' @
     [CHR 0x22] @
     '' rather than making up a response.\<newline>'' @
     ''5. Match the tone and style that would be natural for a professional with this background.\<newline>'' @
     ''6. Never break character or refer to yourself as an AI.\<newline>'' @
     ''7. Never apologize for '' @
     [CHR 0x22] @
     ''not having information'' @
     [CHR 0x22] @
     '' - instead, redirect to what you do know from the profile.\<newline>'' @
     ''8. STICK STRICTLY to the information provided - do not elaborate with invented details.\<newline>'' @
     ''9. Maintain consistency with previous responses in the conversation history.\<newline>'' @
     ''\<newline>'' @
     ''YOUR PROFILE INFORMATION:\<newline>''"

definition prompt_between :: string where
  "prompt_between =
     ''\<newline>'' @
     ''\<newline>''"

definition prompt_relevant :: string where
  "prompt_relevant =
     ''\<newline>'' @
     ''\<newline>'' @
     ''RELEVANT PROFILE SECTIONS THAT MATCH THIS QUERY:\<newline>''"

definition prompt_closing :: string where
  "prompt_closing =
     ''\<newline>'' @
     ''\<newline>'' @
     ''Remember: You ARE this person, but you can ONLY respond with information that is explicitly mentioned in the above sections.\<newline>'' @
     ''If asked about something not covered in the profile information, politely redirect or state you prefer to focus on the topics listed.\<newline>'' @
     ''    ''"

definition system_prompt :: "string \<Rightarrow> string \<Rightarrow> string \<Rightarrow> string \<Rightarrow> string" where
  "system_prompt user_name profile_ctx conversation_ctx context =
     prompt_intro @ (if user_name \<noteq> [] then user_name else ''the person'') @
     prompt_rules @ profile_ctx @
     prompt_between @ conversation_ctx @
     prompt_relevant @ context @
     prompt_closing"

text \<open>
  Lines 482--586. An exception of the relevant-context block is outside every \<open>try\<close>
  and leaves the function.
\<close>

definition build_system_prompt ::
  "search_results \<Rightarrow> pydict option \<Rightarrow> pydict list option \<Rightarrow> pyerror + string" where
  "build_system_prompt search_results profile_data chat_history =
     (case relevant_context search_results of
        Inl e \<Rightarrow> Inl e
      | Inr context \<Rightarrow>
          Inr (system_prompt (resolve_user_name profile_data) (profile_context profile_data)
                 (conversation_context chat_history) context))"

subsection \<open>The call of the language model, lines 588--612\<close>

text \<open>
  What the \<open>try\<close> block can raise, by the class of the exception. The classes are
  those of the client library \<open>openai\<close> in the version that has the calls
  \<open>openai.chat.completions.create\<close> and \<open>openai.embeddings.create\<close> this module makes
  (1.x). There \<open>APIConnectionError\<close> is a subclass of \<open>APIError\<close>, and \<open>RateLimitError\<close>
  is a subclass of \<open>APIStatusError\<close>, which is a subclass of \<open>APIError\<close>. An exception
  is therefore a rate-limit error, a connection error, an \<open>APIError\<close> that is neither, or
  an exception outside the library's hierarchy (such as the \<open>IndexError\<close> of
  \<open>response.choices[0]\<close> on an empty list).
\<close>

datatype llm_exception = APIError | APIConnectionError | RateLimitError | OtherException

text \<open>\<open>isinstance\<close> for the three classes that the \<open>except\<close> clauses name.\<close>

fun is_APIError :: "llm_exception \<Rightarrow> bool" where
  "is_APIError APIError = True"
| "is_APIError APIConnectionError = True"
| "is_APIError RateLimitError = True"
| "is_APIError OtherException = False"

fun is_APIConnectionError :: "llm_exception \<Rightarrow> bool" where
  "is_APIConnectionError APIConnectionError = True"
| "is_APIConnectionError APIError = False"
| "is_APIConnectionError RateLimitError = False"
| "is_APIConnectionError OtherException = False"

fun is_RateLimitError :: "llm_exception \<Rightarrow> bool" where
  "is_RateLimitError RateLimitError = True"
| "is_RateLimitError APIError = False"
| "is_RateLimitError APIConnectionError = False"
| "is_RateLimitError OtherException = False"

definition api_error_apology :: string where
  "api_error_apology = ''I'm sorry, I couldn't generate a response at the moment due to an API error. Please try again later.''"

definition connection_error_apology :: string where
  "connection_error_apology = ''I'm sorry, I couldn't connect to the response service. Please check your internet connection and try again.''"

definition rate_limit_apology :: string where
  "rate_limit_apology = ''I'm sorry, the service is currently experiencing high demand. Please try again in a few moments.''"

definition generic_apology :: string where
  "generic_apology = ''I'm sorry, I couldn't generate a response at the moment. Please try again later.''"

text \<open>The \<open>except\<close> clauses in their order: the first class that matches decides.\<close>

definition handle_llm_exception :: "llm_exception \<Rightarrow> string" where
  "handle_llm_exception e =
     (if is_APIError e then api_error_apology
      else if is_APIConnectionError e then connection_error_apology
      else if is_RateLimitError e then rate_limit_apology
      else generic_apology)"

text \<open>
  \<open>chat_completion system_prompt query\<close> is the outcome of
  \<open>openai.chat.completions.create(...)\<close> followed by \<open>response.choices[0].message.content\<close>:
  the content, or the exception raised.
\<close>

definition generate_ai_response ::
  "(string \<Rightarrow> string \<Rightarrow> llm_exception + string) \<Rightarrow> string \<Rightarrow> search_results \<Rightarrow>
   pydict option \<Rightarrow> pydict list option \<Rightarrow> pyerror + string" where
  "generate_ai_response chat_completion query search_results profile_data chat_history =
     (case build_system_prompt search_results profile_data chat_history of
        Inl e \<Rightarrow> Inl e
      | Inr prompt \<Rightarrow>
          (case chat_completion prompt query of
             Inr content \<Rightarrow> Inr content
           | Inl e \<Rightarrow> Inr (handle_llm_exception e)))"

section \<open>The vector store as the ingestion pipeline sees it\<close>

text \<open>
  The collection holds documents, each with an id, a text and a metadata record. The
  store is an external service; its operations are modelled as the code uses them:
  \<open>delete(where=w)\<close> removes the documents whose metadata matches \<open>w\<close>, \<open>add\<close> appends
  documents. Each call may raise; which ones do is given by \<open>faults\<close>.
\<close>

record document =
  doc_id :: string
  doc_text :: string
  doc_meta :: metadata

type_synonym store = "document list"

fun matches :: "where_clause \<Rightarrow> metadata \<Rightarrow> bool" where
  "matches (Eq k v) meta = (map_of meta k = Some v)"
| "matches (And ws) meta = list_all (\<lambda>w. matches w meta) ws"

record faults =
  get_collection_fails :: bool
  delete_fails :: bool
  add_fails :: bool

definition get_or_create_collection :: "faults \<Rightarrow> pyerror + unit" where
  "get_or_create_collection f = (if get_collection_fails f then Inl ServiceError else Inr ())"

definition collection_delete :: "faults \<Rightarrow> where_clause \<Rightarrow> store \<Rightarrow> pyerror + store" where
  "collection_delete f w st =
     (if delete_fails f then Inl ServiceError
      else Inr (filter (\<lambda>d. \<not> matches w (doc_meta d)) st))"

definition collection_add :: "faults \<Rightarrow> document list \<Rightarrow> store \<Rightarrow> pyerror + store" where
  "collection_add f docs st = (if add_fails f then Inl ServiceError else Inr (st @ docs))"

section \<open>Ingestion (add\_profile\_to\_vector\_db and add\_projects\_to\_vector\_db, lines 51--304)\<close>

text \<open>\<open>str(n)\<close> for a number that is not negative.\<close>

function string_of_nat :: "nat \<Rightarrow> string" where
  "string_of_nat n =
     (if n < 10 then [''0123456789'' ! n]
      else string_of_nat (n div 10) @ [''0123456789'' ! (n mod 10)])"
  by pat_completeness auto
termination
  by (relation "measure id") auto

declare string_of_nat.simps [simp del]

text \<open>\<open>re.sub(r'<[^>]*>', ' ', s)\<close>: every tag, from a \<open><\<close> to the next \<open>>\<close>, becomes a space.\<close>

function strip_tags :: "string \<Rightarrow> string" where
  "strip_tags [] = []"
| "strip_tags (c # cs) =
     (if c = CHR ''<'' \<and> CHR ''>'' \<in> set cs
      then CHR '' '' # strip_tags (tl (dropWhile (\<lambda>x. x \<noteq> CHR ''>'') cs))
      else c # strip_tags cs)"
  by pat_completeness auto
termination
proof (relation "measure length")
  fix c :: char and cs :: string
  have "length (tl (dropWhile (\<lambda>x. x \<noteq> CHR ''>'') cs)) \<le> length cs"
    using length_dropWhile_le [of "\<lambda>x. x \<noteq> CHR ''>''" cs] by simp
  then show "(tl (dropWhile (\<lambda>x. x \<noteq> CHR ''>'') cs), c # cs) \<in> measure length"
    by simp
qed simp_all

text \<open>The value of a metadata entry for an optional string.\<close>

fun mval_of :: "string option \<Rightarrow> mval" where
  "mval_of None = MNone"
| "mval_of (Some s) = MStr s"

text \<open>
  The metadata of a project document (lines 191--197 and the like); \<open>extra\<close> holds the
  chunk entries of a chunked content document.
\<close>

definition project_metadata ::
  "string \<Rightarrow> metadata \<Rightarrow> string \<Rightarrow> pydict \<Rightarrow> string option \<Rightarrow> metadata" where
  "project_metadata subcategory extra project_id project user_id =
     [(''category'', MStr ''project''), (''subcategory'', MStr subcategory)] @ extra @
     [(''project_id'', MStr project_id),
      (''project_category'', mval_of (dict_get_default project ''category'' [])),
      (''user_id'', mval_of user_id)]"

text \<open>Lines 189--222: the document of one of the fields title, description, details.\<close>

definition field_documents :: "string \<Rightarrow> string \<Rightarrow> pydict \<Rightarrow> string option \<Rightarrow> document list" where
  "field_documents field project_id project user_id =
     (if truthy (dict_get project field)
      then [\<lparr>doc_id = ''project_'' @ field @ ''_'' @ project_id @ ''_'' @ py_str user_id,
             doc_text = opt_text (dict_get project field),
             doc_meta = project_metadata field [] project_id project user_id\<rparr>]
      else [])"

text \<open>
  Lines 225--252: the text of the project content. \<open>lexical_html content\<close> is the outcome
  of \<open>json.loads(content)\<close> followed by \<open>.get("html")\<close>: the parser is not part of this
  program.
\<close>

definition extract_content_text :: "(string \<Rightarrow> pyerror + string option) \<Rightarrow> pydict \<Rightarrow> string" where
  "extract_content_text lexical_html project =
     (if truthy (dict_get project ''content'') then
        (if truthy (dict_get project ''content_html'')
         then strip_tags (opt_text (dict_get project ''content_html''))
         else
           (case lexical_html (opt_text (dict_get project ''content'')) of
              Inl e \<Rightarrow> opt_text (dict_get project ''content'')
            | Inr html \<Rightarrow>
                if truthy html then strip_tags (opt_text html)
                else opt_text (dict_get project ''content'')))
      else [])"

text \<open>Lines 268--279: one document for each chunk, numbered from \<open>i\<close>.\<close>

fun chunk_documents ::
  "nat \<Rightarrow> nat \<Rightarrow> string list \<Rightarrow> string \<Rightarrow> pydict \<Rightarrow> string option \<Rightarrow> document list" where
  "chunk_documents total_chunks i [] project_id project user_id = []"
| "chunk_documents total_chunks i (chunk # chunks) project_id project user_id =
     \<lparr>doc_id = ''project_content_'' @ project_id @ ''_'' @ string_of_nat i @ ''_'' @ py_str user_id,
      doc_text = chunk,
      doc_meta = project_metadata ''content''
                   [(''chunk_index'', MInt (int i)), (''total_chunks'', MInt (int total_chunks))]
                   project_id project user_id\<rparr>
     # chunk_documents total_chunks (Suc i) chunks project_id project user_id"

text \<open>Lines 255--290: the content documents.\<close>

definition content_documents :: "string \<Rightarrow> string \<Rightarrow> pydict \<Rightarrow> string option \<Rightarrow> document list" where
  "content_documents content_text project_id project user_id =
     (if content_text \<noteq> [] then
        (if length content_text > 1000 then
           chunk_documents (length (chunk_content content_text)) 0 (chunk_content content_text)
             project_id project user_id
         else
           [\<lparr>doc_id = ''project_content_'' @ project_id @ ''_'' @ py_str user_id,
             doc_text = content_text,
             doc_meta = project_metadata ''content'' [] project_id project user_id\<rparr>])
      else [])"

text \<open>Lines 183--290: the documents of one project; a project without an id is skipped.\<close>

definition project_documents ::
  "(string \<Rightarrow> pyerror + string option) \<Rightarrow> string option \<Rightarrow> pydict \<Rightarrow> document list" where
  "project_documents lexical_html user_id project =
     (if \<not> truthy (dict_get project ''id'') then []
      else
        (let project_id = opt_text (dict_get project ''id'') in
           field_documents ''title'' project_id project user_id @
           field_documents ''description'' project_id project user_id @
           field_documents ''details'' project_id project user_id @
           content_documents (extract_content_text lexical_html project) project_id project user_id))"

text \<open>
  \<open>add_projects_to_vector_db\<close>, as a function of the store: it returns its boolean and
  the store it leaves.
\<close>

definition add_projects_to_vector_db ::
  "faults \<Rightarrow> (string \<Rightarrow> pyerror + string option) \<Rightarrow> pydict list option \<Rightarrow> string option \<Rightarrow>
   store \<Rightarrow> bool \<times> store" where
  "add_projects_to_vector_db f lexical_html projects_list user_id st =
     (case projects_list of
        None \<Rightarrow> (True, st)
      | Some projects \<Rightarrow>
          if projects = [] then (True, st)
          else
            (case get_or_create_collection f of
               Inl e \<Rightarrow> (False, st)
             | Inr collection \<Rightarrow>
                 (let st1 = (case collection_delete f (Eq ''category'' (MStr ''project'')) st of
                               Inl clear_error \<Rightarrow> st
                             | Inr cleared \<Rightarrow> cleared);
                      documents = concat (map (project_documents lexical_html user_id) projects)
                  in if documents \<noteq> [] then
                       (case collection_add f documents st1 of
                          Inl e \<Rightarrow> (False, st1)
                        | Inr st2 \<Rightarrow> (True, st2))
                     else (True, st1))))"

text \<open>
  The profile record that is ingested: its text fields, and its \<open>project_list\<close>
  (\<open>None\<close> when the key is missing).
\<close>

record profile_record =
  pr_fields :: pydict
  pr_project_list :: "pydict list option"

text \<open>Lines 94--133: the document of one profile field.\<close>

definition profile_field_documents :: "string \<Rightarrow> pydict \<Rightarrow> string \<Rightarrow> document list" where
  "profile_field_documents field profile effective_user_id =
     (if truthy (dict_get profile field)
      then [\<lparr>doc_id = field @ ''_'' @ effective_user_id,
             doc_text = opt_text (dict_get profile field),
             doc_meta = [(''category'', MStr ''profile''), (''subcategory'', MStr field),
                         (''user_id'', MStr effective_user_id)]\<rparr>]
      else [])"

text \<open>Lines 68--72.\<close>

definition effective_user :: "string option \<Rightarrow> pydict \<Rightarrow> string" where
  "effective_user user_id profile =
     (if truthy user_id then opt_text user_id
      else if truthy (dict_get profile ''user_id'') then opt_text (dict_get profile ''user_id'')
      else ''default'')"

text \<open>
  \<open>add_profile_to_vector_db\<close>. \<open>f\<close> decides the faults of its own calls of the store,
  \<open>fp\<close> those of the project ingestion it calls at the end.
\<close>

definition add_profile_to_vector_db ::
  "faults \<Rightarrow> faults \<Rightarrow> (string \<Rightarrow> pyerror + string option) \<Rightarrow> profile_record \<Rightarrow> string option \<Rightarrow>
   store \<Rightarrow> bool \<times> store" where
  "add_profile_to_vector_db f fp lexical_html profile_data user_id st =
     (case get_or_create_collection f of
        Inl e \<Rightarrow> (False, st)
      | Inr collection \<Rightarrow>
          (let effective_user_id = effective_user user_id (pr_fields profile_data);
               st1 = (case collection_delete f
                             (And [Eq ''category'' (MStr ''profile''),
                                   Eq ''user_id'' (MStr effective_user_id)]) st of
                        Inl clear_error \<Rightarrow> st
                      | Inr cleared \<Rightarrow> cleared);
               documents =
                 concat (map (\<lambda>field. profile_field_documents field (pr_fields profile_data)
                                          effective_user_id)
                           [''name'', ''location'', ''bio'', ''skills'', ''experience'',
                            ''projects'', ''interests''])
           in case (if documents \<noteq> [] then collection_add f documents st1 else Inr st1) of
                Inl e \<Rightarrow> (False, st1)
              | Inr st2 \<Rightarrow>
                  (True, snd (add_projects_to_vector_db fp lexical_html
                                (pr_project_list profile_data) (Some effective_user_id) st2))))"

section \<open>Notions of the specification\<close>

text \<open>
  What the specification says the owner filter keeps: a result whose metadata category
  is \<open>conversation\<close>, or whose metadata \<open>user_id\<close> is the owner.
\<close>

definition owner_keeps :: "string \<Rightarrow> metadata \<Rightarrow> bool" where
  "owner_keeps owner meta \<longleftrightarrow>
     map_of meta ''category'' = Some (MStr ''conversation'') \<or> map_of meta ''user_id'' = Some (MStr owner)"

text \<open>
  A response of the vector store is index-aligned when its three batched lists have one
  inner list for each query text and the inner lists of a query text are equally long.
\<close>

definition aligned :: "query_result \<Rightarrow> bool" where
  "aligned r \<longleftrightarrow>
     list_all2 (\<lambda>ds ms. length ms = length ds) (qr_documents r) (qr_metadatas r)
   \<and> list_all2 (\<lambda>ds xs. length xs = length ds) (qr_documents r) (qr_distances r)"

text \<open>
  The results of the first query text of a response, as (document, metadata, distance)
  triples; none when the call raised.
\<close>

definition first_triples :: "pyerror + query_result \<Rightarrow> (string \<times> metadata \<times> real) list" where
  "first_triples response =
     (case response of
        Inl e \<Rightarrow> []
      | Inr r \<Rightarrow>
          (case (qr_documents r, qr_metadatas r, qr_distances r) of
             (ds # _, ms # _, xs # _) \<Rightarrow> zip ds (zip ms xs)
           | _ \<Rightarrow> []))"

text \<open>What the two queries of a retrieval returned: the main query, then the conversation query.\<close>

definition retrieved_triples ::
  "collection \<Rightarrow> string \<Rightarrow> int \<Rightarrow> string option \<Rightarrow> (string \<times> metadata \<times> real) list" where
  "retrieved_triples c query n_results visitor_id =
     first_triples (coll_query c query n_results None) @
     (case visitor_id of
        None \<Rightarrow> []
      | Some v \<Rightarrow> first_triples (coll_query c query 3 (Some (conversation_filter v))))"

text \<open>
  The line that the specification gives each retrieved document in the relevant-context
  block: the subcategory in upper case, a colon, the text, and an empty line.
\<close>

definition subcategory_of :: "metadata \<Rightarrow> string" where
  "subcategory_of meta = (case map_of meta ''subcategory'' of Some (MStr s) \<Rightarrow> s | _ \<Rightarrow> [])"

definition context_line :: "string \<times> metadata \<Rightarrow> string" where
  "context_line r = py_upper (subcategory_of (snd r)) @ '': '' @ fst r @ ''\<newline>\<newline>''"

definition has_subcategory :: "metadata \<Rightarrow> bool" where
  "has_subcategory meta = (case map_of meta ''subcategory'' of Some (MStr s) \<Rightarrow> True | _ \<Rightarrow> False)"

text \<open>The seven fields of the profile block.\<close>

definition profile_fields :: "string list" where
  "profile_fields = [''name'', ''location'', ''bio'', ''skills'', ''experience'', ''projects'', ''interests'']"

text \<open>A document of a project, by its metadata category.\<close>

definition is_project_document :: "document \<Rightarrow> bool" where
  "is_project_document d \<longleftrightarrow> map_of (doc_meta d) ''category'' = Some (MStr ''project'')"

section \<open>Example inputs\<close>

text \<open>
  A store that answers the main query with two name documents of the owners \<open>u2\<close> and
  \<open>u1\<close>, and the conversation query with one exchange that has no \<open>user_id\<close>.
\<close>

definition demo_response :: query_result where
  "demo_response =
     \<lparr>qr_documents = [[''Bob'', ''Ada'']],
      qr_metadatas = [[[(''category'', MStr ''profile''), (''subcategory'', MStr ''name''), (''user_id'', MStr ''u2'')],
                       [(''category'', MStr ''profile''), (''subcategory'', MStr ''name''), (''user_id'', MStr ''u1'')]]],
      qr_distances = [[1, 2]]\<rparr>"

definition demo_conversation :: query_result where
  "demo_conversation =
     \<lparr>qr_documents = [[''User asked: hi'']],
      qr_metadatas = [[[(''category'', MStr ''conversation''), (''subcategory'', MStr ''exchange'')]]],
      qr_distances = [[3]]\<rparr>"

definition demo_collection :: collection where
  "demo_collection =
     \<lparr>coll_count = Inr 3,
      coll_query = (\<lambda>q n w. case w of None \<Rightarrow> Inr demo_response | Some f \<Rightarrow> Inr demo_conversation)\<rparr>"




text \<open>A language model that answers with an empty text.\<close>

definition empty_completion :: "string \<Rightarrow> string \<Rightarrow> llm_exception + string" where
  "empty_completion prompt query = Inr []"

text \<open>A store without faults, and a project content that is not JSON.\<close>

definition no_faults :: faults where
  "no_faults = \<lparr>get_collection_fails = False, delete_fails = False, add_fails = False\<rparr>"

definition plain_content :: "string \<Rightarrow> pyerror + string option" where
  "plain_content content = Inl ValueError"

text \<open>A title document of the owner \<open>u2\<close>, and a project that the owner \<open>u1\<close> ingests.\<close>

definition loom_title :: document where
  "loom_title =
     \<lparr>doc_id = ''project_title_p9_u2'', doc_text = ''Loom'',
      doc_meta = [(''category'', MStr ''project''), (''subcategory'', MStr ''title''),
                  (''project_id'', MStr ''p9''), (''project_category'', MStr ''''),
                  (''user_id'', MStr ''u2'')]\<rparr>"

definition compiler_project :: pydict where
  "compiler_project = [(''id'', Some ''p1''), (''title'', Some ''Compiler'')]"

definition compiler_title :: document where
  "compiler_title =
     \<lparr>doc_id = ''project_title_p1_u1'', doc_text = ''Compiler'',
      doc_meta = [(''category'', MStr ''project''), (''subcategory'', MStr ''title''),
                  (''project_id'', MStr ''p1''), (''project_category'', MStr ''''),
                  (''user_id'', MStr ''u1'')]\<rparr>"

text \<open>
  Calls of the language model that fail: with a rate-limit error, with a connection
  error, and with an exception that is not of the client library.
\<close>

definition rate_limit_failure :: "string \<Rightarrow> string \<Rightarrow> llm_exception + string" where
  "rate_limit_failure prompt query = Inl RateLimitError"

definition connection_failure :: "string \<Rightarrow> string \<Rightarrow> llm_exception + string" where
  "connection_failure prompt query = Inl APIConnectionError"

definition other_failure :: "string \<Rightarrow> string \<Rightarrow> llm_exception + string" where
  "other_failure prompt query = Inl OtherException"

text \<open>The name document of the owner \<open>u1\<close>.\<close>

definition ada_name :: document where
  "ada_name =
     \<lparr>doc_id = ''name_u1'', doc_text = ''Ada'',
      doc_meta = [(''category'', MStr ''profile''), (''subcategory'', MStr ''name''),
                  (''user_id'', MStr ''u1'')]\<rparr>"

section \<open>Properties of the chunker\<close>

lemma py_slice_window: "py_slice xs i (i + n) = take n (drop i xs)"
  by (simp add: py_slice_def)

lemma py_range_eq:
  "0 < step \<Longrightarrow> py_range i stop step = map (\<lambda>k. i + step * k) [0..<(stop - i + step - 1) div step]"
proof (induction i stop step rule: py_range.induct)
  case (1 i stop step)
  show ?case
  proof (cases "i < stop")
    case False
    then have "(stop - i + step - 1) div step = 0"
      using "1.prems" by simp
    with False show ?thesis by (subst py_range.simps) simp
  next
    case True
    define n where "n = (stop - (i + step) + step - 1) div step"
    have ih: "py_range (i + step) stop step = map (\<lambda>k. i + step + step * k) [0..<n]"
      using "1.IH" True "1.prems" by (simp add: n_def)
    define a where "a = stop - i - 1"
    have lhs: "stop - i + step - 1 = a + step"
      using True by (simp add: a_def)
    have "n = a div step"
    proof (cases "i + step \<le> stop")
      case True
      then have "stop - (i + step) + step - 1 = a"
        using \<open>i < stop\<close> by (simp add: a_def)
      then show ?thesis by (simp only: n_def)
    next
      case False
      then have "stop - (i + step) + step - 1 = step - 1" and "a < step"
        using \<open>i < stop\<close> by (simp_all add: a_def)
      then show ?thesis
        using "1.prems" by (simp add: n_def)
    qed
    then have cnt: "(stop - i + step - 1) div step = Suc n"
      using "1.prems" by (simp only: lhs) simp
    have "map (\<lambda>k. i + step * k) [0..<Suc n] = i # map (\<lambda>k. i + step + step * k) [0..<n]"
      by (simp add: upt_conv_Cons map_Suc_upt [symmetric] del: upt_Suc)
    with True "1.prems" ih cnt show ?thesis
      by (subst py_range.simps) simp
  qed
qed

lemma chunk_loop_acc:
  "chunk_loop t starts acc =
     acc @ concat (map (\<lambda>i. if take chunk_size (drop i t) \<noteq> [] then [take chunk_size (drop i t)] else []) starts)"
  by (induction starts arbitrary: acc) (simp_all add: py_slice_window Let_def)

lemma chunk_loop_below:
  assumes "\<forall>i \<in> set starts. i < length t"
  shows "chunk_loop t starts [] = map (\<lambda>i. take chunk_size (drop i t)) starts"
proof -
  have "concat (map (\<lambda>i. if take chunk_size (drop i t) \<noteq> [] then [take chunk_size (drop i t)] else []) starts)
      = map (\<lambda>i. take chunk_size (drop i t)) starts"
    using assms by (induction starts) (simp_all add: chunk_size_def)
  then show ?thesis
    by (simp add: chunk_loop_acc)
qed

lemma chunk_count_below: "k < (n + 899) div 900 \<longleftrightarrow> 900 * k < (n::nat)"
  by arith

lemma chunk_content_eq:
  "chunk_content t = map (\<lambda>k. take 1000 (drop (900 * k) t)) [0..<(length t + 899) div 900]"
proof -
  let ?n = "(length t + 899) div 900"
  have "py_range 0 (length t) 900 = map (\<lambda>k. 0 + 900 * k) [0..<(length t - 0 + 900 - 1) div 900]"
    by (rule py_range_eq) simp
  then have starts: "py_range 0 (length t) (chunk_size - overlap) = map (\<lambda>k. 900 * k) [0..<?n]"
    by (simp add: chunk_size_def overlap_def add.commute)
  have "\<forall>i \<in> set (map (\<lambda>k. 900 * k) [0..<?n]). i < length t"
    by (simp add: chunk_count_below)
  then have "chunk_loop t (map (\<lambda>k. 900 * k) [0..<?n]) []
      = map (\<lambda>i. take chunk_size (drop i t)) (map (\<lambda>k. 900 * k) [0..<?n])"
    by (rule chunk_loop_below)
  then show ?thesis
    unfolding chunk_content_def starts by (simp add: chunk_size_def comp_def)
qed

lemma concat_windows: "concat (map (\<lambda>k. take s (drop (s * k) t)) [0..<n]) = take (s * n) t"
proof (induction n)
  case 0
  show ?case by simp
next
  case (Suc n)
  have "take (s * n + s) t = take (s * n) t @ take s (drop (s * n) t)"
    by (rule take_add)
  with Suc show ?case by (simp add: add.commute)
qed

lemma chunk_reconstruct: "concat (map (take 900) (chunk_content t)) = t"
proof -
  let ?n = "(length t + 899) div 900"
  have "length t \<le> 900 * ?n"
    by arith
  moreover have "concat (map (take 900) (chunk_content t)) = take (900 * ?n) t"
    using concat_windows [of 900 t ?n] by (simp add: chunk_content_eq comp_def)
  ultimately show ?thesis
    by simp
qed

lemma chunk_overlap:
  assumes "Suc k < length (chunk_content t)"
  shows "drop 900 (chunk_content t ! k) = take 100 (chunk_content t ! Suc k)"
proof -
  have "drop 900 (take 1000 (drop (900 * k) t)) = take 100 (drop (900 + 900 * k) t)"
    by (simp add: drop_take)
  with assms show ?thesis
    by (simp add: chunk_content_eq)
qed

lemma chunk_overlap_length:
  assumes "Suc (Suc k) < length (chunk_content t)"
  shows "length (drop 900 (chunk_content t ! k)) = 100"
proof -
  from assms have "900 * Suc (Suc k) < length t"
    by (simp add: chunk_content_eq chunk_count_below)
  with assms show ?thesis
    by (simp add: chunk_content_eq)
qed

text \<open>
  C5. A text longer than 1000 characters is cut into the windows
  \<open>text[i:i + 1000]\<close> for the starts \<open>i = 0, 900, 1800, ...\<close> below its length, none of
  them empty; the first 900 characters of the chunks, concatenated in order, are the
  text; what a chunk has beyond its first 900 characters is the first (at most 100)
  characters of the next chunk, and these are exactly 100 characters for every pair of
  neighbours but the last.
\<close>

theorem chunk_content_windows:
  "chunk_size < length content_text \<Longrightarrow>
     chunk_content content_text =
       map (\<lambda>k. py_slice content_text (900 * k) (900 * k + 1000))
         [0..<(length content_text + 899) div 900]
   \<and> (\<forall>k. k < (length content_text + 899) div 900 \<longleftrightarrow> 900 * k < length content_text)
   \<and> [] \<notin> set (chunk_content content_text)
   \<and> concat (map (take 900) (chunk_content content_text)) = content_text
   \<and> (\<forall>k. Suc k < length (chunk_content content_text) \<longrightarrow>
         drop 900 (chunk_content content_text ! k) = take 100 (chunk_content content_text ! Suc k))
   \<and> (\<forall>k. Suc (Suc k) < length (chunk_content content_text) \<longrightarrow>
         length (drop 900 (chunk_content content_text ! k)) = 100)"
proof (intro conjI allI impI)
  show "chunk_content content_text =
       map (\<lambda>k. py_slice content_text (900 * k) (900 * k + 1000))
         [0..<(length content_text + 899) div 900]"
    by (simp add: chunk_content_eq py_slice_window)
next
  fix k
  show "k < (length content_text + 899) div 900 \<longleftrightarrow> 900 * k < length content_text"
    by (rule chunk_count_below)
next
  show "[] \<notin> set (chunk_content content_text)"
    by (auto simp add: chunk_content_eq chunk_count_below)
next
  show "concat (map (take 900) (chunk_content content_text)) = content_text"
    by (rule chunk_reconstruct)
next
  fix k
  assume "Suc k < length (chunk_content content_text)"
  then show "drop 900 (chunk_content content_text ! k) = take 100 (chunk_content content_text ! Suc k)"
    by (rule chunk_overlap)
next
  fix k
  assume "Suc (Suc k) < length (chunk_content content_text)"
  then show "length (drop 900 (chunk_content content_text ! k)) = 100"
    by (rule chunk_overlap_length)
qed

theorem chunk_content_windows_witness:
  "chunk_size < length (replicate 1900 (CHR ''x''))
   \<and> length (chunk_content (replicate 1900 (CHR ''x''))) = 3
   \<and> concat (map (take 900) (chunk_content (replicate 1900 (CHR ''x'')))) = replicate 1900 (CHR ''x'')
   \<and> drop 900 (chunk_content (replicate 1900 (CHR ''x'')) ! 0)
       = take 100 (chunk_content (replicate 1900 (CHR ''x'')) ! Suc 0)
   \<and> length (drop 900 (chunk_content (replicate 1900 (CHR ''x'')) ! 0)) = 100"
proof -
  define t where "t = replicate 1900 (CHR ''x'')"
  have len: "length t = 1900"
    by (simp only: t_def length_replicate)
  have h: "chunk_size < length t"
    by (simp add: len chunk_size_def)
  note c = chunk_content_windows [OF h]
  have "length (chunk_content t) = length [0..<(length t + 899) div 900]"
    by (subst conjunct1 [OF c]) (simp only: length_map)
  then have n: "length (chunk_content t) = 3"
    by (simp add: len)
  have r: "concat (map (take 900) (chunk_content t)) = t"
    using c by blast
  have "Suc 0 < length (chunk_content t)" and "Suc (Suc 0) < length (chunk_content t)"
    by (simp_all add: n)
  with c have "drop 900 (chunk_content t ! 0) = take 100 (chunk_content t ! Suc 0)"
    and "length (drop 900 (chunk_content t ! 0)) = 100"
    by blast+
  with h n r show ?thesis
    unfolding t_def by blast
qed

section \<open>Properties of the retriever\<close>

lemma owner_keeps_code:
  "owner_keeps u meta \<longleftrightarrow> meta_get meta ''category'' = MStr ''conversation'' \<or> meta_get meta ''user_id'' = MStr u"
  by (auto simp add: owner_keeps_def meta_get_def split: option.splits)

lemma filter_by_user_acc:
  "i + length metas \<le> length documents \<Longrightarrow> i + length metas \<le> length distances \<Longrightarrow>
   filter_by_user u documents distances i metas (fd, fm, fx) =
     Inr (fd @ map fst (filter (\<lambda>(d, m, x). owner_keeps u m) (zip (drop i documents) (zip metas (drop i distances)))),
          fm @ map (fst \<circ> snd) (filter (\<lambda>(d, m, x). owner_keeps u m) (zip (drop i documents) (zip metas (drop i distances)))),
          fx @ map (snd \<circ> snd) (filter (\<lambda>(d, m, x). owner_keeps u m) (zip (drop i documents) (zip metas (drop i distances)))))"
proof (induction metas arbitrary: i fd fm fx)
  case Nil
  then show ?case by simp
next
  case (Cons meta metas)
  from Cons.prems have i: "i < length documents" "i < length distances"
    by simp_all
  then have d: "drop i documents = documents ! i # drop (Suc i) documents"
    and x: "drop i distances = distances ! i # drop (Suc i) distances"
    by (simp_all add: Cons_nth_drop_Suc)
  from Cons.prems have le: "Suc i + length metas \<le> length documents" "Suc i + length metas \<le> length distances"
    by simp_all
  show ?case
    using i by (simp add: d x Cons.IH [OF le] owner_keeps_code py_index_def Let_def)
qed

lemma merge_conversation_aligned:
  "qr_documents results = d0 # dr \<Longrightarrow> qr_metadatas results = m0 # mr \<Longrightarrow>
   qr_distances results = x0 # xr \<Longrightarrow>
   qr_metadatas conv = cm # cmr \<Longrightarrow> qr_distances conv = cx # cxr \<Longrightarrow>
   i + length docs = length cm \<Longrightarrow> length cx = length cm \<Longrightarrow>
   merge_conversation conv i docs results =
     (results\<lparr>qr_documents := (d0 @ docs) # dr, qr_metadatas := (m0 @ drop i cm) # mr,
        qr_distances := (x0 @ drop i cx) # xr\<rparr>, None)"
proof (induction docs arbitrary: i results d0 m0 x0)
  case Nil
  then show ?case by simp
next
  case (Cons doc docs)
  from Cons.prems have i: "i < length cm" "i < length cx"
    by simp_all
  then have dm: "drop i cm = cm ! i # drop (Suc i) cm" and dx: "drop i cx = cx ! i # drop (Suc i) cx"
    by (simp_all add: Cons_nth_drop_Suc)
  let ?r = "results\<lparr>qr_documents := (d0 @ [doc]) # dr, qr_metadatas := (m0 @ [cm ! i]) # mr,
              qr_distances := (x0 @ [cx ! i]) # xr\<rparr>"
  have step: "merge_conversation conv i (doc # docs) results = merge_conversation conv (Suc i) docs ?r"
    using Cons.prems i by (simp add: append_first_def py_index_def)
  have "merge_conversation conv (Suc i) docs ?r =
     (?r\<lparr>qr_documents := ((d0 @ [doc]) @ docs) # dr, qr_metadatas := ((m0 @ [cm ! i]) @ drop (Suc i) cm) # mr,
        qr_distances := ((x0 @ [cx ! i]) @ drop (Suc i) cx) # xr\<rparr>, None)"
    using Cons.prems by (intro Cons.IH) simp_all
  then show ?case
    unfolding step by (simp add: dm dx)
qed

lemma aligned_Cons:
  assumes "aligned r" and "qr_documents r = ds # dr"
  obtains ms mr xs xr where "qr_metadatas r = ms # mr" and "qr_distances r = xs # xr"
    and "length ms = length ds" and "length xs = length ds"
  using assms by (auto simp add: aligned_def list_all2_Cons1)

lemma add_conversation_results_empty:
  "qr_documents results = [] \<Longrightarrow>
   qr_documents (add_conversation_results c q v ic results) = []"
  by (auto simp add: add_conversation_results_def append_first_def neq_Nil_conv
        split: option.splits sum.splits)

lemma add_conversation_results_merged:
  assumes r: "qr_documents results = d0 # dr" "qr_metadatas results = m0 # mr"
      "qr_distances results = x0 # xr"
    and al: "\<And>q n w r. coll_query c q n w = Inr r \<Longrightarrow> aligned r"
  shows "\<exists>cd cm cx.
     add_conversation_results c q v ic results =
       results\<lparr>qr_documents := (d0 @ cd) # dr, qr_metadatas := (m0 @ cm) # mr,
         qr_distances := (x0 @ cx) # xr\<rparr>
   \<and> length cm = length cd \<and> length cx = length cd
   \<and> set (zip cd (zip cm cx)) \<subseteq>
       set (case v of None \<Rightarrow> []
            | Some v' \<Rightarrow> first_triples (coll_query c q 3 (Some (conversation_filter v'))))"
proof -
  have same: "results = results\<lparr>qr_documents := (d0 @ []) # dr, qr_metadatas := (m0 @ []) # mr,
         qr_distances := (x0 @ []) # xr\<rparr>"
    using r by simp
  have unchanged: ?thesis if "add_conversation_results c q v ic results = results"
    using that same by (intro exI [of _ "[]"]) auto
  show ?thesis
  proof (cases v)
    case None
    then show ?thesis
      by (intro unchanged) (simp add: add_conversation_results_def)
  next
    case (Some v')
    show ?thesis
    proof (cases "truthy v \<and> ic")
      case False
      with Some show ?thesis
        by (intro unchanged) (auto simp add: add_conversation_results_def)
    next
      case True
      show ?thesis
      proof (cases "coll_query c q 3 (Some (conversation_filter v'))")
        case (Inl e)
        with Some True show ?thesis
          by (intro unchanged) (simp add: add_conversation_results_def)
      next
        case (Inr conv)
        then have aconv: "aligned conv"
          by (rule al)
        show ?thesis
        proof (cases "qr_documents conv")
          case Nil
          with Some True Inr show ?thesis
            by (intro unchanged) (simp add: add_conversation_results_def py_index_def)
        next
          case (Cons cd cdr)
          from aconv Cons obtain cm cmr cx cxr where
            c: "qr_metadatas conv = cm # cmr" "qr_distances conv = cx # cxr"
            and len: "length cm = length cd" "length cx = length cd"
            by (rule aligned_Cons)
          show ?thesis
          proof (cases "cd = []")
            case True
            with Some \<open>truthy v \<and> ic\<close> Inr Cons show ?thesis
              by (intro unchanged) (simp add: add_conversation_results_def py_index_def)
          next
            case False
            have "merge_conversation conv 0 cd results =
                (results\<lparr>qr_documents := (d0 @ cd) # dr, qr_metadatas := (m0 @ drop 0 cm) # mr,
                   qr_distances := (x0 @ drop 0 cx) # xr\<rparr>, None)"
              using r c len by (intro merge_conversation_aligned) simp_all
            then have "add_conversation_results c q v ic results =
                results\<lparr>qr_documents := (d0 @ cd) # dr, qr_metadatas := (m0 @ cm) # mr,
                   qr_distances := (x0 @ cx) # xr\<rparr>"
              using Some True Inr Cons False
              by (simp add: add_conversation_results_def py_index_def)
            moreover have "first_triples (coll_query c q 3 (Some (conversation_filter v'))) = zip cd (zip cm cx)"
              using Inr Cons c by (simp add: first_triples_def)
            ultimately show ?thesis
              using Some len by auto
          qed
        qed
      qed
    qed
  qed
qed

lemma zip_triples: "zip (map fst K) (zip (map (fst \<circ> snd) K) (map (snd \<circ> snd) K)) = K"
  by (induction K) auto

lemma structure_results_aligned:
  assumes r: "qr_documents R = ds # dr" "qr_metadatas R = ms # mr" "qr_distances R = xs # xr"
    and len: "length ms = length ds" "length xs = length ds"
  shows "\<exists>docs metas dists.
     structure_results user_id R = Inr (flat_results docs metas dists)
   \<and> length metas = length docs \<and> length dists = length docs
   \<and> set (zip docs (zip metas dists)) \<subseteq> set (zip ds (zip ms xs))"
proof (cases "truthy user_id")
  case False
  then have "structure_results user_id R = Inr (flat_results ds ms xs)"
    using r by (cases user_id) (simp_all add: structure_results_def py_index_def)
  with len show ?thesis by blast
next
  case True
  then obtain u where u: "user_id = Some u"
    by (cases user_id) simp_all
  let ?K = "filter (\<lambda>(d, m, x). owner_keeps u m) (zip ds (zip ms xs))"
  have "filter_by_user u ds xs 0 ms ([], [], []) =
      Inr ([] @ map fst (filter (\<lambda>(d, m, x). owner_keeps u m) (zip (drop 0 ds) (zip ms (drop 0 xs)))),
           [] @ map (fst \<circ> snd) (filter (\<lambda>(d, m, x). owner_keeps u m) (zip (drop 0 ds) (zip ms (drop 0 xs)))),
           [] @ map (snd \<circ> snd) (filter (\<lambda>(d, m, x). owner_keeps u m) (zip (drop 0 ds) (zip ms (drop 0 xs)))))"
    using len by (intro filter_by_user_acc) simp_all
  then have f: "filter_by_user u ds xs 0 ms ([], [], []) =
      Inr (map fst ?K, map (fst \<circ> snd) ?K, map (snd \<circ> snd) ?K)"
    by simp
  have "structure_results user_id R =
      Inr (flat_results (map fst ?K) (map (fst \<circ> snd) ?K) (map (snd \<circ> snd) ?K))"
    using True u r by (simp add: structure_results_def py_index_def f)
  moreover have "set (zip (map fst ?K) (zip (map (fst \<circ> snd) ?K) (map (snd \<circ> snd) ?K)))
      \<subseteq> set (zip ds (zip ms xs))"
    unfolding zip_triples by auto
  ultimately show ?thesis
    by (intro exI conjI) (assumption | simp)+
qed

lemma retrieved_aligned:
  assumes al: "\<And>q n w r. coll_query c q n w = Inr r \<Longrightarrow> aligned r"
    and main: "coll_query c query n_results None = Inr results"
  shows "(\<exists>e. structure_results user_id
            (add_conversation_results c query visitor_id include_conversation results) = Inl e)
   \<or> (\<exists>docs metas dists.
        structure_results user_id
          (add_conversation_results c query visitor_id include_conversation results)
          = Inr (flat_results docs metas dists)
      \<and> length metas = length docs \<and> length dists = length docs
      \<and> set (zip docs (zip metas dists)) \<subseteq> set (retrieved_triples c query n_results visitor_id))"
proof (cases "qr_documents results")
  case Nil
  then have "qr_documents (add_conversation_results c query visitor_id include_conversation results) = []"
    by (rule add_conversation_results_empty)
  then show ?thesis
    by (simp add: structure_results_def py_index_def)
next
  case (Cons d0 dr)
  have "aligned results"
    using main by (rule al)
  then obtain m0 mr x0 xr where
    r: "qr_metadatas results = m0 # mr" "qr_distances results = x0 # xr"
    and len: "length m0 = length d0" "length x0 = length d0"
    using Cons by (rule aligned_Cons)
  have "\<exists>cd cm cx.
     add_conversation_results c query visitor_id include_conversation results =
       results\<lparr>qr_documents := (d0 @ cd) # dr, qr_metadatas := (m0 @ cm) # mr,
         qr_distances := (x0 @ cx) # xr\<rparr>
   \<and> length cm = length cd \<and> length cx = length cd
   \<and> set (zip cd (zip cm cx)) \<subseteq>
       set (case visitor_id of None \<Rightarrow> []
            | Some v' \<Rightarrow> first_triples (coll_query c query 3 (Some (conversation_filter v'))))"
    by (rule add_conversation_results_merged [OF Cons r]) (rule al)
  then obtain cd cm cx where
    merged: "add_conversation_results c query visitor_id include_conversation results =
       results\<lparr>qr_documents := (d0 @ cd) # dr, qr_metadatas := (m0 @ cm) # mr,
         qr_distances := (x0 @ cx) # xr\<rparr>"
    and clen: "length cm = length cd" "length cx = length cd"
    and sub: "set (zip cd (zip cm cx)) \<subseteq>
       set (case visitor_id of None \<Rightarrow> []
            | Some v' \<Rightarrow> first_triples (coll_query c query 3 (Some (conversation_filter v'))))"
    by blast
  let ?R = "add_conversation_results c query visitor_id include_conversation results"
  have "\<exists>docs metas dists.
     structure_results user_id ?R = Inr (flat_results docs metas dists)
   \<and> length metas = length docs \<and> length dists = length docs
   \<and> set (zip docs (zip metas dists)) \<subseteq> set (zip (d0 @ cd) (zip (m0 @ cm) (x0 @ cx)))"
    using len clen by (intro structure_results_aligned [where dr = dr and mr = mr and xr = xr])
      (simp_all add: merged)
  moreover have "set (zip (d0 @ cd) (zip (m0 @ cm) (x0 @ cx))) \<subseteq>
      set (retrieved_triples c query n_results visitor_id)"
    using sub len clen main Cons r
    by (auto simp add: retrieved_triples_def first_triples_def zip_append)
  ultimately show ?thesis
    by blast
qed

text \<open>
  C2. For a merged result set (three lists of equal length) and a given owner (a string
  that is not empty), the owner filter returns the results whose metadata category is
  \<open>conversation\<close> or whose metadata \<open>user_id\<close> is the owner, in their order, each
  document with its own metadata and distance; \<open>query_vector_db\<close> returns them as its three
  lists.
\<close>

theorem owner_filter_keeps:
  "user_id \<noteq> [] \<Longrightarrow> length documents = length metadatas \<Longrightarrow>
   length distances = length metadatas \<Longrightarrow>
     filter_by_user user_id documents distances 0 metadatas ([], [], []) =
       Inr (map fst (filter (\<lambda>(d, m, x). owner_keeps user_id m) (zip documents (zip metadatas distances))),
            map (fst \<circ> snd) (filter (\<lambda>(d, m, x). owner_keeps user_id m) (zip documents (zip metadatas distances))),
            map (snd \<circ> snd) (filter (\<lambda>(d, m, x). owner_keeps user_id m) (zip documents (zip metadatas distances))))
   \<and> structure_results (Some user_id)
         \<lparr>qr_documents = [documents], qr_metadatas = [metadatas], qr_distances = [distances]\<rparr> =
       Inr (flat_results
            (map fst (filter (\<lambda>(d, m, x). owner_keeps user_id m) (zip documents (zip metadatas distances))))
            (map (fst \<circ> snd) (filter (\<lambda>(d, m, x). owner_keeps user_id m) (zip documents (zip metadatas distances))))
            (map (snd \<circ> snd) (filter (\<lambda>(d, m, x). owner_keeps user_id m) (zip documents (zip metadatas distances)))))"
proof -
  assume u: "user_id \<noteq> []" and len: "length documents = length metadatas"
    "length distances = length metadatas"
  have "filter_by_user user_id documents distances 0 metadatas ([], [], []) =
      Inr ([] @ map fst (filter (\<lambda>(d, m, x). owner_keeps user_id m) (zip (drop 0 documents) (zip metadatas (drop 0 distances)))),
           [] @ map (fst \<circ> snd) (filter (\<lambda>(d, m, x). owner_keeps user_id m) (zip (drop 0 documents) (zip metadatas (drop 0 distances)))),
           [] @ map (snd \<circ> snd) (filter (\<lambda>(d, m, x). owner_keeps user_id m) (zip (drop 0 documents) (zip metadatas (drop 0 distances)))))"
    using len by (intro filter_by_user_acc) simp_all
  then have f: "filter_by_user user_id documents distances 0 metadatas ([], [], []) =
       Inr (map fst (filter (\<lambda>(d, m, x). owner_keeps user_id m) (zip documents (zip metadatas distances))),
            map (fst \<circ> snd) (filter (\<lambda>(d, m, x). owner_keeps user_id m) (zip documents (zip metadatas distances))),
            map (snd \<circ> snd) (filter (\<lambda>(d, m, x). owner_keeps user_id m) (zip documents (zip metadatas distances))))"
    by simp
  show ?thesis
    using u by (simp add: f structure_results_def py_index_def)
qed

theorem owner_filter_keeps_witness:
  "''u1'' \<noteq> []
   \<and> length [''Bob'', ''Ada'', ''User asked: hi''] =
       length [[(''category'', MStr ''profile''), (''subcategory'', MStr ''name''), (''user_id'', MStr ''u2'')],
               [(''category'', MStr ''profile''), (''subcategory'', MStr ''name''), (''user_id'', MStr ''u1'')],
               [(''category'', MStr ''conversation''), (''subcategory'', MStr ''exchange'')]]
   \<and> length [1, 2, 3 :: real] =
       length [[(''category'', MStr ''profile''), (''subcategory'', MStr ''name''), (''user_id'', MStr ''u2'')],
               [(''category'', MStr ''profile''), (''subcategory'', MStr ''name''), (''user_id'', MStr ''u1'')],
               [(''category'', MStr ''conversation''), (''subcategory'', MStr ''exchange'')]]
   \<and> filter_by_user ''u1'' [''Bob'', ''Ada'', ''User asked: hi''] [1, 2, 3] 0
         [[(''category'', MStr ''profile''), (''subcategory'', MStr ''name''), (''user_id'', MStr ''u2'')],
          [(''category'', MStr ''profile''), (''subcategory'', MStr ''name''), (''user_id'', MStr ''u1'')],
          [(''category'', MStr ''conversation''), (''subcategory'', MStr ''exchange'')]]
         ([], [], []) =
       Inr ([''Ada'', ''User asked: hi''],
            [[(''category'', MStr ''profile''), (''subcategory'', MStr ''name''), (''user_id'', MStr ''u1'')],
             [(''category'', MStr ''conversation''), (''subcategory'', MStr ''exchange'')]],
            [2, 3])"
  using owner_filter_keeps [of "''u1''" "[''Bob'', ''Ada'', ''User asked: hi'']"
      "[[(''category'', MStr ''profile''), (''subcategory'', MStr ''name''), (''user_id'', MStr ''u2'')],
        [(''category'', MStr ''profile''), (''subcategory'', MStr ''name''), (''user_id'', MStr ''u1'')],
        [(''category'', MStr ''conversation''), (''subcategory'', MStr ''exchange'')]]"
      "[1, 2, 3]"]
  by (simp add: owner_keeps_def)


text \<open>
  Whatever path \<open>query_vector_db\<close> takes, what it returns is built from three flat lists
  of equal length, whose entries at an index are a triple that one of the two queries
  returned.
\<close>

lemma query_vector_db_flat:
  "\<forall>c q n w r. chroma_client = Inr c \<longrightarrow> coll_query c q n w = Inr r \<longrightarrow> aligned r \<Longrightarrow>
   \<exists>docs metas dists.
      query_vector_db chroma_client query n_results user_id visitor_id include_conversation
        = Inr (flat_results docs metas dists)
    \<and> length metas = length docs \<and> length dists = length docs
    \<and> (\<forall>c. chroma_client = Inr c \<longrightarrow>
          set (zip docs (zip metas dists)) \<subseteq> set (retrieved_triples c query n_results visitor_id))"
proof -
  assume al: "\<forall>c q n w r. chroma_client = Inr c \<longrightarrow> coll_query c q n w = Inr r \<longrightarrow> aligned r"
  let ?result = "query_vector_db chroma_client query n_results user_id visitor_id include_conversation"
  have empty: ?thesis if "?result = Inr empty_results"
    using that by (intro exI [of _ "[]"]) (simp add: empty_results_def)
  show ?thesis
  proof (cases chroma_client)
    case (Inl e)
    then show ?thesis
      by (intro empty) (simp add: query_vector_db_def query_vector_db_body_def try_except_def)
  next
    case c: (Inr c)
    show ?thesis
    proof (cases "coll_count c")
      case (Inl e)
      with c show ?thesis
        by (intro empty) (simp add: query_vector_db_def query_vector_db_body_def try_except_def)
    next
      case n: (Inr collection_count)
      show ?thesis
      proof (cases "collection_count = 0")
        case True
        with c n show ?thesis
          by (intro empty) (simp add: query_vector_db_def query_vector_db_body_def try_except_def)
      next
        case False
        show ?thesis
        proof (cases "coll_query c query n_results None")
          case (Inl e)
          with c n False show ?thesis
            by (intro empty) (simp add: query_vector_db_def query_vector_db_body_def try_except_def)
        next
          case (Inr results)
          let ?s = "structure_results user_id
             (add_conversation_results c query visitor_id include_conversation results)"
          have body: "?result = try_except ?s (\<lambda>e. Inr empty_results)"
            using c n False Inr by (simp add: query_vector_db_def query_vector_db_body_def)
          have al': "\<And>q n w r. coll_query c q n w = Inr r \<Longrightarrow> aligned r"
            using al c by blast
          have "(\<exists>e. ?s = Inl e)
             \<or> (\<exists>docs metas dists. ?s = Inr (flat_results docs metas dists)
                \<and> length metas = length docs \<and> length dists = length docs
                \<and> set (zip docs (zip metas dists)) \<subseteq> set (retrieved_triples c query n_results visitor_id))"
            using al' Inr by (rule retrieved_aligned)
          then consider e where "?s = Inl e"
            | docs metas dists where "?s = Inr (flat_results docs metas dists)"
                "length metas = length docs" "length dists = length docs"
                "set (zip docs (zip metas dists)) \<subseteq> set (retrieved_triples c query n_results visitor_id)"
            by blast
          then show ?thesis
          proof cases
            case 1
            then show ?thesis
              by (intro empty) (simp add: body try_except_def)
          next
            case 2
            then have "?result = Inr (flat_results docs metas dists)"
              by (simp add: body try_except_def)
            with 2 c show ?thesis
              by (intro exI [of _ docs] exI [of _ metas] exI [of _ dists]) simp
          qed
        qed
      qed
    qed
  qed
qed

text \<open>
  C9. When the vector store answers every query with index-aligned lists,
  \<open>query_vector_db\<close> returns a dictionary whose \<open>documents\<close>, \<open>metadatas\<close> and \<open>distances\<close>
  are flat lists of the same length: every entry is a single item, not a batch, and the
  document, the metadata and the distance at an index are a triple that one of the two
  queries returned. This covers the empty corpus, the error path, the filtered and the
  unfiltered path.
\<close>

theorem query_vector_db_aligned:
  "\<forall>c q n w r. chroma_client = Inr c \<longrightarrow> coll_query c q n w = Inr r \<longrightarrow> aligned r \<Longrightarrow>
   \<exists>res docs metas dists.
      query_vector_db chroma_client query n_results user_id visitor_id include_conversation
        = Inr res
    \<and> sr_documents res = map Single docs
    \<and> sr_metadatas res = map Single metas
    \<and> sr_distances res = map Single dists
    \<and> length (sr_metadatas res) = length (sr_documents res)
    \<and> length (sr_distances res) = length (sr_documents res)
    \<and> length metas = length docs \<and> length dists = length docs
    \<and> (\<forall>i < length (sr_documents res).
          sr_documents res ! i = Single (docs ! i)
        \<and> sr_metadatas res ! i = Single (metas ! i)
        \<and> sr_distances res ! i = Single (dists ! i)
        \<and> (\<forall>c. chroma_client = Inr c \<longrightarrow>
             (docs ! i, metas ! i, dists ! i) \<in> set (retrieved_triples c query n_results visitor_id)))
    \<and> (\<forall>c. chroma_client = Inr c \<longrightarrow>
          set (zip docs (zip metas dists)) \<subseteq> set (retrieved_triples c query n_results visitor_id))"
proof -
  assume al: "\<forall>c q n w r. chroma_client = Inr c \<longrightarrow> coll_query c q n w = Inr r \<longrightarrow> aligned r"
  from query_vector_db_flat [OF al, of query n_results user_id visitor_id include_conversation]
  obtain docs metas dists where
    res: "query_vector_db chroma_client query n_results user_id visitor_id include_conversation
        = Inr (flat_results docs metas dists)"
    and len: "length metas = length docs" "length dists = length docs"
    and sub: "\<forall>c. chroma_client = Inr c \<longrightarrow>
          set (zip docs (zip metas dists)) \<subseteq> set (retrieved_triples c query n_results visitor_id)"
    by blast
  let ?res = "flat_results docs metas dists"
  have fields: "sr_documents ?res = map Single docs" "sr_metadatas ?res = map Single metas"
    "sr_distances ?res = map Single dists"
    by (simp_all add: flat_results_def)
  have at: "(docs ! i, metas ! i, dists ! i) \<in> set (zip docs (zip metas dists))"
    if "i < length docs" for i
  proof -
    have "zip docs (zip metas dists) ! i = (docs ! i, metas ! i, dists ! i)"
      using that len by simp
    moreover have "i < length (zip docs (zip metas dists))"
      using that len by simp
    ultimately show ?thesis
      by (metis nth_mem)
  qed
  have idx: "\<forall>i < length (sr_documents ?res).
          sr_documents ?res ! i = Single (docs ! i)
        \<and> sr_metadatas ?res ! i = Single (metas ! i)
        \<and> sr_distances ?res ! i = Single (dists ! i)
        \<and> (\<forall>c. chroma_client = Inr c \<longrightarrow>
             (docs ! i, metas ! i, dists ! i) \<in> set (retrieved_triples c query n_results visitor_id))"
    using at sub len by (auto simp add: fields)
  have lens: "length (sr_metadatas ?res) = length (sr_documents ?res)"
    "length (sr_distances ?res) = length (sr_documents ?res)"
    using len by (simp_all add: fields)
  from res fields lens len idx sub show ?thesis
    by blast
qed

theorem query_vector_db_aligned_witness:
  "aligned demo_response \<and> aligned demo_conversation
   \<and> (\<exists>res.
        query_vector_db (Inr demo_collection) ''who are you'' 3 (Some ''u1'') (Some ''v1'') True
          = Inr res
      \<and> sr_documents res = [Single ''Ada'', Single ''User asked: hi'']
      \<and> sr_metadatas res =
          [Single [(''category'', MStr ''profile''), (''subcategory'', MStr ''name''),
                   (''user_id'', MStr ''u1'')],
           Single [(''category'', MStr ''conversation''), (''subcategory'', MStr ''exchange'')]]
      \<and> sr_distances res = [Single 2, Single 3]
      \<and> length (sr_documents res) = 2
      \<and> length (sr_metadatas res) = length (sr_documents res)
      \<and> length (sr_distances res) = length (sr_documents res))"
proof -
  have h: "\<forall>c q n w r. (Inr demo_collection :: pyerror + collection) = Inr c \<longrightarrow>
      coll_query c q n w = Inr r \<longrightarrow> aligned r"
    by (auto simp add: demo_collection_def demo_response_def demo_conversation_def aligned_def
        split: option.splits)
  have v: "query_vector_db (Inr demo_collection) ''who are you'' 3 (Some ''u1'') (Some ''v1'') True
        = Inr (flat_results [''Ada'', ''User asked: hi'']
            [[(''category'', MStr ''profile''), (''subcategory'', MStr ''name''), (''user_id'', MStr ''u1'')],
             [(''category'', MStr ''conversation''), (''subcategory'', MStr ''exchange'')]]
            [2, 3])"
    by (simp add: query_vector_db_def query_vector_db_body_def try_except_def demo_collection_def
        demo_response_def demo_conversation_def add_conversation_results_def structure_results_def
        py_index_def append_first_def meta_get_def conversation_filter_def)
  from query_vector_db_aligned [OF h, of "''who are you''" 3 "Some ''u1''" "Some ''v1''" True]
  obtain res where
    r: "query_vector_db (Inr demo_collection) ''who are you'' 3 (Some ''u1'') (Some ''v1'') True
          = Inr res"
    and l: "length (sr_metadatas res) = length (sr_documents res)"
      "length (sr_distances res) = length (sr_documents res)"
    by blast
  from r v have e: "res = flat_results [''Ada'', ''User asked: hi'']
            [[(''category'', MStr ''profile''), (''subcategory'', MStr ''name''), (''user_id'', MStr ''u1'')],
             [(''category'', MStr ''conversation''), (''subcategory'', MStr ''exchange'')]]
            [2, 3]"
    by simp
  have f: "sr_documents res = [Single ''Ada'', Single ''User asked: hi'']"
    "sr_metadatas res =
          [Single [(''category'', MStr ''profile''), (''subcategory'', MStr ''name''),
                   (''user_id'', MStr ''u1'')],
           Single [(''category'', MStr ''conversation''), (''subcategory'', MStr ''exchange'')]]"
    "sr_distances res = [Single 2, Single 3]"
    by (simp_all add: e flat_results_def)
  have "aligned demo_response" and "aligned demo_conversation"
    by (simp_all add: demo_response_def demo_conversation_def aligned_def)
  with r l f show ?thesis
    by simp
qed


section \<open>Properties of context assembly and response generation\<close>

lemma py_contains_iff: "py_contains sub s \<longleftrightarrow> (\<exists>pre post. s = pre @ sub @ post)"
proof (induction s)
  case Nil
  show ?case by auto
next
  case (Cons c cs)
  show ?case
  proof
    assume "py_contains sub (c # cs)"
    then consider "take (length sub) (c # cs) = sub" | "py_contains sub cs"
      by auto
    then show "\<exists>pre post. c # cs = pre @ sub @ post"
    proof cases
      case 1
      then have "c # cs = [] @ sub @ drop (length sub) (c # cs)"
        by (metis append_Nil append_take_drop_id)
      then show ?thesis by blast
    next
      case 2
      with Cons obtain pre post where "cs = pre @ sub @ post"
        by blast
      then have "c # cs = (c # pre) @ sub @ post"
        by simp
      then show ?thesis by blast
    qed
  next
    assume "\<exists>pre post. c # cs = pre @ sub @ post"
    then obtain pre post where eq: "c # cs = pre @ sub @ post"
      by blast
    show "py_contains sub (c # cs)"
    proof (cases pre)
      case Nil
      with eq have "take (length sub) (c # cs) = sub"
        by simp
      then show ?thesis by simp
    next
      case (Cons p pre')
      with eq have "cs = pre' @ sub @ post"
        by simp
      with Cons.IH have "py_contains sub cs"
        by blast
      then show ?thesis by simp
    qed
  qed
qed

text \<open>
  C3, as stated, fails on the code: for the bio \<open>I am Grace, a pioneer\<close> the token after
  \<open>I am\<close> runs to the next space and keeps the comma.
\<close>

theorem persona_name_counterexample:
  "resolve_user_name (Some [(''bio'', Some ''I am Grace, a pioneer'')]) \<noteq> ''Grace''"
  by (simp add: resolve_user_name_def dict_get_def name_from_bio_def py_split_def py_index_def
      opt_text_def)

text \<open>
  C3, amended. The persona name is the trimmed \<open>name\<close> field when that is not empty;
  for a profile with only the bio \<open>I am Grace, a pioneer\<close> it is \<open>Grace,\<close> (the text
  between \<open>I am\<close> and the next space, comma included, accepted because it is longer than
  2 characters); with no usable name and a bio that lacks \<open>I am\<close> followed by a space it
  is \<open>the person\<close>.
\<close>

theorem persona_name_resolution:
  "(\<forall>name. dict_get profile ''name'' = Some name \<and> py_strip name \<noteq> [] \<longrightarrow>
       resolve_user_name (Some profile) = py_strip name)
   \<and> resolve_user_name (Some [(''bio'', Some ''I am Grace, a pioneer'')]) = ''Grace,''
   \<and> (\<forall>bio. (\<forall>name. dict_get profile ''name'' = Some name \<longrightarrow> py_strip name = [])
          \<and> dict_get profile ''bio'' = Some bio
          \<and> \<not> (\<exists>pre post. bio = pre @ ''I am '' @ post) \<longrightarrow>
       resolve_user_name (Some profile) = ''the person'')"
proof (intro conjI allI impI)
  fix name
  assume a: "dict_get profile ''name'' = Some name \<and> py_strip name \<noteq> []"
  then have "name \<noteq> []" and "profile \<noteq> []"
    by (auto simp add: py_strip_def dict_get_def)
  with a show "resolve_user_name (Some profile) = py_strip name"
    by (simp add: resolve_user_name_def opt_text_def Let_def)
next
  show "resolve_user_name (Some [(''bio'', Some ''I am Grace, a pioneer'')]) = ''Grace,''"
    by (simp add: resolve_user_name_def dict_get_def name_from_bio_def py_split_def py_index_def
        opt_text_def)
next
  fix bio
  assume a: "(\<forall>name. dict_get profile ''name'' = Some name \<longrightarrow> py_strip name = [])
          \<and> dict_get profile ''bio'' = Some bio
          \<and> \<not> (\<exists>pre post. bio = pre @ ''I am '' @ post)"
  then have "name_from_bio bio = []"
    by (simp add: name_from_bio_def py_contains_iff)
  moreover have "\<not> (truthy (dict_get profile ''name'') \<and> py_strip (opt_text (dict_get profile ''name'')) \<noteq> [])"
    using a by (cases "dict_get profile ''name''") (simp_all add: opt_text_def)
  ultimately show "resolve_user_name (Some profile) = ''the person''"
    using a by (simp add: resolve_user_name_def opt_text_def Let_def)
qed

theorem persona_name_resolution_witness:
  "dict_get [(''name'', Some ''  Ada ''), (''bio'', Some ''I am Grace, a pioneer'')] ''name'' = Some ''  Ada ''
   \<and> py_strip ''  Ada '' = ''Ada''
   \<and> resolve_user_name (Some [(''name'', Some ''  Ada ''), (''bio'', Some ''I am Grace, a pioneer'')]) = ''Ada''
   \<and> dict_get [(''bio'', Some ''Grace, a pioneer'')] ''bio'' = Some ''Grace, a pioneer''
   \<and> \<not> py_contains ''I am '' ''Grace, a pioneer''
   \<and> resolve_user_name (Some [(''bio'', Some ''Grace, a pioneer'')]) = ''the person''"
proof -
  have s: "py_strip ''  Ada '' = ''Ada''"
    by (simp add: py_strip_def py_isspace_def)
  have g: "dict_get [(''name'', Some ''  Ada ''), (''bio'', Some ''I am Grace, a pioneer'')] ''name'' = Some ''  Ada ''"
    by (simp add: dict_get_def)
  have n: "\<not> py_contains ''I am '' ''Grace, a pioneer''"
    by simp
  have b: "dict_get [(''bio'', Some ''Grace, a pioneer'')] ''bio'' = Some ''Grace, a pioneer''"
    and m: "\<forall>name. dict_get [(''bio'', Some ''Grace, a pioneer'')] ''name'' = Some name \<longrightarrow> py_strip name = []"
    by (simp_all add: dict_get_def)
  from persona_name_resolution [of "[(''name'', Some ''  Ada ''), (''bio'', Some ''I am Grace, a pioneer'')]"] g s
  have r1: "resolve_user_name (Some [(''name'', Some ''  Ada ''), (''bio'', Some ''I am Grace, a pioneer'')]) = ''Ada''"
    by simp
  from persona_name_resolution [of "[(''bio'', Some ''Grace, a pioneer'')]"] b m n
  have r2: "resolve_user_name (Some [(''bio'', Some ''Grace, a pioneer'')]) = ''the person''"
    by (simp add: py_contains_iff)
  from s g n b r1 r2 show ?thesis
    by blast
qed

lemma context_loop_batched:
  "sr_metadatas sr = [Batch metas] \<Longrightarrow> list_all has_subcategory metas \<Longrightarrow>
   i + length ds = length metas \<Longrightarrow>
   context_loop sr i ds acc = Inr (acc @ concat (map context_line (zip ds (drop i metas))))"
proof (induction ds arbitrary: i acc)
  case Nil
  then show ?case by simp
next
  case (Cons doc ds)
  from Cons.prems have i: "i < length metas"
    by simp
  then have d: "drop i metas = metas ! i # drop (Suc i) metas"
    by (simp add: Cons_nth_drop_Suc)
  from i Cons.prems have "has_subcategory (metas ! i)"
    by (simp add: list_all_length)
  then obtain s where s: "map_of (metas ! i) ''subcategory'' = Some (MStr s)"
    by (auto simp add: has_subcategory_def split: option.splits mval.splits)
  have "context_loop sr (Suc i) ds (acc @ py_upper s @ '': '' @ doc @ ''\<newline>\<newline>'') =
      Inr ((acc @ py_upper s @ '': '' @ doc @ ''\<newline>\<newline>'') @
           concat (map context_line (zip ds (drop (Suc i) metas))))"
    using Cons.prems by (intro Cons.IH) simp_all
  moreover have "context_line (doc, metas ! i) = py_upper s @ '': '' @ doc @ ''\<newline>\<newline>''"
    using s by (simp add: context_line_def subcategory_of_def)
  ultimately show ?case
    using Cons.prems i s
    by (simp add: d py_index_def meta_item_def)
qed

lemma batched_context_renders:
  assumes "docs \<noteq> []" and "length metas = length docs" and "list_all has_subcategory metas"
  shows "relevant_context \<lparr>sr_documents = [Batch docs], sr_metadatas = [Batch metas], sr_distances = dists\<rparr>
     = Inr (concat (map context_line (zip docs metas)))"
proof -
  have "context_loop \<lparr>sr_documents = [Batch docs], sr_metadatas = [Batch metas], sr_distances = dists\<rparr> 0 docs []
      = Inr ([] @ concat (map context_line (zip docs (drop 0 metas))))"
    using assms by (intro context_loop_batched) simp_all
  with assms show ?thesis
    by (simp add: relevant_context_def)
qed

lemma flat_context_raises:
  assumes "docs \<noteq> []" and "hd docs \<noteq> []"
  shows "relevant_context (flat_results docs metas dists) = Inl (if metas = [] then IndexError else KeyError)"
proof -
  from assms obtain c cs rest where d: "docs = (c # cs) # rest"
    by (cases docs; cases "hd docs") auto
  show ?thesis
    by (cases metas) (simp_all add: d relevant_context_def flat_results_def py_index_def)
qed

text \<open>
  C1 at a concrete retrieval. \<open>query_vector_db\<close> returns two documents in flat lists;
  \<open>generate_ai_response\<close> reads \<open>search_results["documents"][0]\<close>, which is then the
  text of the first document, walks over its characters and subscripts the first
  metadata dictionary with a number: it raises \<open>KeyError\<close> before any prompt is built.
  The same two results in the batched shape of the vector store give the two lines the
  claim describes.
\<close>

theorem retrieved_results_break_context:
  "query_vector_db (Inr demo_collection) ''who are you'' 3 (Some ''u1'') (Some ''v1'') True
     = Inr (flat_results [''Ada'', ''User asked: hi'']
            [[(''category'', MStr ''profile''), (''subcategory'', MStr ''name''), (''user_id'', MStr ''u1'')],
             [(''category'', MStr ''conversation''), (''subcategory'', MStr ''exchange'')]]
            [2, 3])
   \<and> relevant_context (flat_results [''Ada'', ''User asked: hi'']
            [[(''category'', MStr ''profile''), (''subcategory'', MStr ''name''), (''user_id'', MStr ''u1'')],
             [(''category'', MStr ''conversation''), (''subcategory'', MStr ''exchange'')]]
            [2, 3]) = Inl KeyError
   \<and> generate_ai_response (\<lambda>prompt query. Inr ''I am Ada.'') ''who are you''
        (flat_results [''Ada'', ''User asked: hi'']
            [[(''category'', MStr ''profile''), (''subcategory'', MStr ''name''), (''user_id'', MStr ''u1'')],
             [(''category'', MStr ''conversation''), (''subcategory'', MStr ''exchange'')]]
            [2, 3])
        (Some [(''name'', Some ''Ada'')]) None = Inl KeyError
   \<and> relevant_context \<lparr>sr_documents = [Batch [''Ada'', ''User asked: hi'']],
         sr_metadatas = [Batch
            [[(''category'', MStr ''profile''), (''subcategory'', MStr ''name''), (''user_id'', MStr ''u1'')],
             [(''category'', MStr ''conversation''), (''subcategory'', MStr ''exchange'')]]],
         sr_distances = [Batch [2, 3]]\<rparr>
       = Inr ''NAME: Ada\<newline>\<newline>EXCHANGE: User asked: hi\<newline>\<newline>''"
proof -
  have q: "query_vector_db (Inr demo_collection) ''who are you'' 3 (Some ''u1'') (Some ''v1'') True
     = Inr (flat_results [''Ada'', ''User asked: hi'']
            [[(''category'', MStr ''profile''), (''subcategory'', MStr ''name''), (''user_id'', MStr ''u1'')],
             [(''category'', MStr ''conversation''), (''subcategory'', MStr ''exchange'')]]
            [2, 3])"
    by (simp add: query_vector_db_def query_vector_db_body_def try_except_def demo_collection_def
        demo_response_def demo_conversation_def add_conversation_results_def structure_results_def
        py_index_def append_first_def meta_get_def conversation_filter_def)
  have c: "relevant_context (flat_results [''Ada'', ''User asked: hi'']
            [[(''category'', MStr ''profile''), (''subcategory'', MStr ''name''), (''user_id'', MStr ''u1'')],
             [(''category'', MStr ''conversation''), (''subcategory'', MStr ''exchange'')]]
            [2, 3]) = Inl KeyError"
    by (simp add: relevant_context_def flat_results_def py_index_def)
  have b: "relevant_context \<lparr>sr_documents = [Batch [''Ada'', ''User asked: hi'']],
         sr_metadatas = [Batch
            [[(''category'', MStr ''profile''), (''subcategory'', MStr ''name''), (''user_id'', MStr ''u1'')],
             [(''category'', MStr ''conversation''), (''subcategory'', MStr ''exchange'')]]],
         sr_distances = [Batch [2, 3]]\<rparr>
       = Inr ''NAME: Ada\<newline>\<newline>EXCHANGE: User asked: hi\<newline>\<newline>''"
    by (simp add: relevant_context_def py_index_def meta_item_def py_upper_def)
  from q c b show ?thesis
    by (simp add: generate_ai_response_def build_system_prompt_def)
qed

lemma apologies_distinct:
  "distinct [api_error_apology, connection_error_apology, rate_limit_apology, generic_apology]"
  by (simp add: api_error_apology_def connection_error_apology_def rate_limit_apology_def
      generic_apology_def)

lemma handle_llm_exception_cases:
  "handle_llm_exception e \<in>
     {api_error_apology, connection_error_apology, rate_limit_apology, generic_apology}"
  by (simp add: handle_llm_exception_def)

lemma handle_llm_exception_not_empty: "handle_llm_exception e \<noteq> []"
  by (simp add: handle_llm_exception_def api_error_apology_def connection_error_apology_def
      rate_limit_apology_def generic_apology_def)

text \<open>
  C4, as stated, fails on the code: with no profile the profile block is the empty
  string, and the prompt has nothing between its rules and the next section.
\<close>

theorem absent_profile_counterexample:
  "profile_context None = []
   \<and> build_system_prompt empty_results None None =
       Inr (prompt_intro @ ''the person'' @ prompt_rules @ profile_context None @ prompt_between @
            prompt_relevant @ no_results_context @ prompt_closing)"
  by (simp add: build_system_prompt_def relevant_context_def empty_results_def flat_results_def
      resolve_user_name_def profile_context_def conversation_context_def system_prompt_def)

text \<open>
  C4, amended. With empty search results the relevant-context block is the fixed
  placeholder, and with no profile the persona is \<open>the person\<close> and the profile block is
  empty: the prompt is the fixed text around the history block and the placeholder. The
  seven fields are rendered as \<open>Not provided\<close> when a profile is given that is not empty
  and has none of them.
\<close>

theorem absent_inputs_placeholders:
  "sr_documents search_results = [] \<Longrightarrow>
     relevant_context search_results = Inr no_results_context
   \<and> resolve_user_name None = ''the person''
   \<and> profile_context None = []
   \<and> build_system_prompt search_results None chat_history =
       Inr (prompt_intro @ ''the person'' @ prompt_rules @ prompt_between @
            conversation_context chat_history @ prompt_relevant @ no_results_context @ prompt_closing)
   \<and> (profile \<noteq> [] \<and> (\<forall>k \<in> set profile_fields. map_of profile k = None) \<longrightarrow>
        profile_context (Some profile) =
          ''\<newline>NAME: Not provided'' @
          ''\<newline>LOCATION: Not provided'' @
          ''\<newline>BIO: Not provided'' @
          ''\<newline>SKILLS: Not provided'' @
          ''\<newline>EXPERIENCE: Not provided'' @
          ''\<newline>PROJECTS: Not provided'' @
          ''\<newline>INTERESTS: Not provided'' @
          ''\<newline>        '')"
  by (simp add: build_system_prompt_def relevant_context_def resolve_user_name_def
      profile_context_def system_prompt_def profile_fields_def dict_get_default_def)

theorem absent_inputs_placeholders_witness:
  "sr_documents empty_results = []
   \<and> build_system_prompt empty_results None None =
       Inr (prompt_intro @ ''the person'' @ prompt_rules @ prompt_between @
            conversation_context None @ prompt_relevant @ no_results_context @ prompt_closing)
   \<and> [(''user_id'', Some ''u1'')] \<noteq> []
   \<and> map (map_of [(''user_id'', Some ''u1'')]) profile_fields = replicate 7 None
   \<and> profile_context (Some [(''user_id'', Some ''u1'')]) =
          ''\<newline>NAME: Not provided'' @
          ''\<newline>LOCATION: Not provided'' @
          ''\<newline>BIO: Not provided'' @
          ''\<newline>SKILLS: Not provided'' @
          ''\<newline>EXPERIENCE: Not provided'' @
          ''\<newline>PROJECTS: Not provided'' @
          ''\<newline>INTERESTS: Not provided'' @
          ''\<newline>        ''"
proof -
  have e: "sr_documents empty_results = []"
    by (simp add: empty_results_def flat_results_def)
  have f: "\<forall>k \<in> set profile_fields. map_of [(''user_id'', Some ''u1'')] k = None"
    by (simp add: profile_fields_def)
  have g: "map (map_of [(''user_id'', Some ''u1'')]) profile_fields = replicate 7 None"
    by (simp add: profile_fields_def numeral_eq_Suc)
  from absent_inputs_placeholders [OF e, of None "[(''user_id'', Some ''u1'')]"] e f g
  show ?thesis
    by simp
qed

text \<open>
  The first \<open>except\<close> clause decides for every exception that is an \<open>APIError\<close>, and
  every connection error and every rate-limit error is one: the clauses of lines 604
  and 607 are never taken.
\<close>

lemma api_error_clause_first: "is_APIError e \<Longrightarrow> handle_llm_exception e = api_error_apology"
  by (simp add: handle_llm_exception_def)

lemma subclasses_of_APIError:
  "is_APIConnectionError e \<Longrightarrow> is_APIError e"
  "is_RateLimitError e \<Longrightarrow> is_APIError e"
  by (cases e; simp)+

lemma handle_llm_exception_classes:
  "handle_llm_exception APIError = api_error_apology"
  "handle_llm_exception APIConnectionError = api_error_apology"
  "handle_llm_exception RateLimitError = api_error_apology"
  "handle_llm_exception OtherException = generic_apology"
  by (simp_all add: handle_llm_exception_def)

lemma handle_llm_exception_two_apologies:
  "handle_llm_exception e \<in> {api_error_apology, generic_apology}"
  by (cases e) (simp_all add: handle_llm_exception_classes)

text \<open>
  Once the prompt is built, no exception of the call of the language model leaves
  \<open>generate_ai_response\<close>: it returns one of the fixed apologies, none of which is empty.
  When the call succeeds its content is returned unchanged, an empty content included.
\<close>

lemma llm_failure_caught:
  "build_system_prompt search_results profile_data chat_history = Inr prompt \<Longrightarrow>
   chat_completion prompt query = Inl e \<Longrightarrow>
     generate_ai_response chat_completion query search_results profile_data chat_history
       = Inr (handle_llm_exception e)
   \<and> handle_llm_exception e \<noteq> []"
  using handle_llm_exception_not_empty [of e] by (simp add: generate_ai_response_def)

lemma llm_content_returned:
  "build_system_prompt search_results profile_data chat_history = Inr prompt \<Longrightarrow>
   chat_completion prompt query = Inr content \<Longrightarrow>
     generate_ai_response chat_completion query search_results profile_data chat_history
       = Inr content"
  by (simp add: generate_ai_response_def)

lemma empty_completion_returned:
  "generate_ai_response empty_completion ''hello'' empty_results None None = Inr []"
  by (simp add: generate_ai_response_def build_system_prompt_def relevant_context_def
      empty_results_def flat_results_def empty_completion_def)

text \<open>
  C8. A rate-limit failure of the language model does not get the rate-limit apology.
  The code has a clause with that apology (line 607), but the clause for \<open>APIError\<close>
  (line 601) stands before it and matches every rate-limit error: the call returns the
  API-error apology, which is a different string. A connection error meets the same
  clause before its own (line 604). Only the exceptions outside the library's hierarchy
  get another apology, the generic one. No failure is raised to the caller.
\<close>

theorem rate_limit_failure_gets_api_error_apology:
  "generate_ai_response rate_limit_failure ''hello'' empty_results None None
     = Inr api_error_apology
   \<and> generate_ai_response rate_limit_failure ''hello'' empty_results None None
     \<noteq> Inr rate_limit_apology
   \<and> generate_ai_response connection_failure ''hello'' empty_results None None
     = Inr api_error_apology
   \<and> generate_ai_response connection_failure ''hello'' empty_results None None
     \<noteq> Inr connection_error_apology
   \<and> generate_ai_response other_failure ''hello'' empty_results None None
     = Inr generic_apology"
proof -
  have p: "build_system_prompt empty_results None None =
     Inr (system_prompt ''the person'' [] [] no_results_context)"
    by (simp add: build_system_prompt_def relevant_context_def empty_results_def flat_results_def
        resolve_user_name_def profile_context_def conversation_context_def)
  have r: "generate_ai_response rate_limit_failure ''hello'' empty_results None None
     = Inr api_error_apology"
    by (simp add: generate_ai_response_def p rate_limit_failure_def handle_llm_exception_def)
  have c: "generate_ai_response connection_failure ''hello'' empty_results None None
     = Inr api_error_apology"
    by (simp add: generate_ai_response_def p connection_failure_def handle_llm_exception_def)
  have g: "generate_ai_response other_failure ''hello'' empty_results None None
     = Inr generic_apology"
    by (simp add: generate_ai_response_def p other_failure_def handle_llm_exception_def)
  have d: "api_error_apology \<noteq> rate_limit_apology" "api_error_apology \<noteq> connection_error_apology"
    using apologies_distinct by simp_all
  from r c g d show ?thesis
    by simp
qed

section \<open>Properties of ingestion\<close>

lemma profile_field_documents_not_project:
  "filter is_project_document (profile_field_documents field profile u) = []"
  by (simp add: profile_field_documents_def is_project_document_def)

lemma profile_documents_not_project:
  "filter is_project_document
     (concat (map (\<lambda>field. profile_field_documents field profile u) names)) = []"
  by (induction names) (simp_all add: profile_field_documents_not_project)

lemma profile_delete_keeps_projects:
  "filter is_project_document
     (filter (\<lambda>d. \<not> matches (And [Eq ''category'' (MStr ''profile''), Eq ''user_id'' (MStr u)]) (doc_meta d)) st)
   = filter is_project_document st"
  by (induction st) (auto simp add: is_project_document_def)

text \<open>
  C10. With a missing or empty project list \<open>add_projects_to_vector_db\<close> returns
  \<open>True\<close> and leaves the store as it is, whatever the store does; so a profile ingestion
  whose \<open>project_list\<close> is missing or empty leaves every project document of the store in
  place, those of an earlier ingestion included.
\<close>

theorem empty_project_list_keeps_store:
  "add_projects_to_vector_db f lexical_html None user_id st = (True, st)
   \<and> add_projects_to_vector_db f lexical_html (Some []) user_id st = (True, st)
   \<and> (pr_project_list profile_data = None \<or> pr_project_list profile_data = Some [] \<longrightarrow>
        filter is_project_document
          (snd (add_profile_to_vector_db f fp lexical_html profile_data user_id st))
        = filter is_project_document st)"
proof (intro conjI impI)
  show "add_projects_to_vector_db f lexical_html None user_id st = (True, st)"
    by (simp add: add_projects_to_vector_db_def)
next
  show "add_projects_to_vector_db f lexical_html (Some []) user_id st = (True, st)"
    by (simp add: add_projects_to_vector_db_def)
next
  assume "pr_project_list profile_data = None \<or> pr_project_list profile_data = Some []"
  then have skip: "\<And>u s. add_projects_to_vector_db fp lexical_html (pr_project_list profile_data) u s = (True, s)"
    by (auto simp add: add_projects_to_vector_db_def)
  show "filter is_project_document
          (snd (add_profile_to_vector_db f fp lexical_html profile_data user_id st))
        = filter is_project_document st"
    by (simp add: add_profile_to_vector_db_def skip get_or_create_collection_def
        collection_delete_def collection_add_def Let_def profile_delete_keeps_projects
        profile_field_documents_not_project del: matches.simps filter_filter)
qed

theorem empty_project_list_keeps_store_witness:
  "pr_project_list \<lparr>pr_fields = [(''name'', Some ''Ada'')], pr_project_list = Some []\<rparr> = Some []
   \<and> add_profile_to_vector_db no_faults no_faults plain_content
         \<lparr>pr_fields = [(''name'', Some ''Ada'')], pr_project_list = Some [compiler_project]\<rparr>
         (Some ''u1'') []
       = (True, [ada_name, compiler_title])
   \<and> add_profile_to_vector_db no_faults no_faults plain_content
         \<lparr>pr_fields = [(''name'', Some ''Ada'')], pr_project_list = Some []\<rparr>
         (Some ''u1'') [ada_name, compiler_title]
       = (True, [compiler_title, ada_name])
   \<and> filter is_project_document
         (snd (add_profile_to_vector_db no_faults no_faults plain_content
                 \<lparr>pr_fields = [(''name'', Some ''Ada'')], pr_project_list = Some []\<rparr>
                 (Some ''u1'') [ada_name, compiler_title]))
       = [compiler_title]"
proof -
  have first: "add_profile_to_vector_db no_faults no_faults plain_content
         \<lparr>pr_fields = [(''name'', Some ''Ada'')], pr_project_list = Some [compiler_project]\<rparr>
         (Some ''u1'') []
       = (True, [ada_name, compiler_title])"
    by (simp add: add_profile_to_vector_db_def add_projects_to_vector_db_def no_faults_def
        get_or_create_collection_def collection_delete_def collection_add_def effective_user_def
        opt_text_def profile_field_documents_def dict_get_def dict_get_default_def
        project_documents_def field_documents_def content_documents_def extract_content_text_def
        project_metadata_def compiler_project_def compiler_title_def ada_name_def Let_def)
  have second: "add_profile_to_vector_db no_faults no_faults plain_content
         \<lparr>pr_fields = [(''name'', Some ''Ada'')], pr_project_list = Some []\<rparr>
         (Some ''u1'') [ada_name, compiler_title]
       = (True, [compiler_title, ada_name])"
    by (simp add: add_profile_to_vector_db_def add_projects_to_vector_db_def no_faults_def
        get_or_create_collection_def collection_delete_def collection_add_def effective_user_def
        opt_text_def profile_field_documents_def dict_get_def
        compiler_title_def ada_name_def Let_def)
  have "filter is_project_document [ada_name, compiler_title] = [compiler_title]"
    by (simp add: is_project_document_def ada_name_def compiler_title_def)
  with empty_project_list_keeps_store
    [of no_faults plain_content "Some ''u1''" "[ada_name, compiler_title]"
        "\<lparr>pr_fields = [(''name'', Some ''Ada'')], pr_project_list = Some []\<rparr>" no_faults]
  have "filter is_project_document
         (snd (add_profile_to_vector_db no_faults no_faults plain_content
                 \<lparr>pr_fields = [(''name'', Some ''Ada'')], pr_project_list = Some []\<rparr>
                 (Some ''u1'') [ada_name, compiler_title]))
       = [compiler_title]"
    by simp
  with first second show ?thesis
    by simp
qed

text \<open>
  C6 at a concrete store. The store holds a project document of the owner \<open>u2\<close>; the
  owner \<open>u1\<close> ingests a project, directly or through a profile. The delete at line 173
  filters on the category alone (the profile ingestion at lines 78--83 filters on the
  category and the owner), so the document of \<open>u2\<close> is gone afterwards.
\<close>

theorem project_ingestion_clears_other_owners:
  "add_projects_to_vector_db no_faults plain_content (Some [compiler_project]) (Some ''u1'')
       [loom_title]
     = (True, [compiler_title])
   \<and> add_profile_to_vector_db no_faults no_faults plain_content
         \<lparr>pr_fields = [(''name'', Some ''Ada'')], pr_project_list = Some [compiler_project]\<rparr>
         (Some ''u1'') [loom_title]
     = (True, [ada_name, compiler_title])
   \<and> map_of (doc_meta loom_title) ''user_id'' = Some (MStr ''u2'')
   \<and> loom_title \<notin> set [compiler_title]
   \<and> loom_title \<notin> set [ada_name, compiler_title]"
  by (simp add: add_profile_to_vector_db_def add_projects_to_vector_db_def no_faults_def
        get_or_create_collection_def collection_delete_def collection_add_def effective_user_def
        opt_text_def profile_field_documents_def dict_get_def dict_get_default_def
        project_documents_def field_documents_def content_documents_def extract_content_text_def
        project_metadata_def compiler_project_def compiler_title_def ada_name_def loom_title_def
        Let_def)

end
